theory Spec2Isabelle
  imports Complex_Main
begin

section \<open>Local Business Lead Finder: discovery, enrichment and export\<close>

text \<open>
  The repository holds three generations of the top-level component \<open>App\<close> and the two
  service modules they call. They are told apart here by a suffix:
  \<^item> \<open>_stream\<close>: the App that discovers through the text stream and researches inline
    (\<open>onDiscovery\<close> with \<open>then\<close>/\<open>catch\<close>, its own \<open>handleRetryResearch\<close>);
  \<^item> \<open>_geo\<close>: the App that discovers through the text stream and researches and geocodes
    in \<open>processResearchAndGeocoding\<close>;
  \<^item> \<open>_places\<close>: the App that discovers through the places index in one batch.

  A JavaScript string is modelled as a \<open>string\<close> whose characters are code units below
  256. An \<open>async\<close> function is modelled by the settled value of its promise, \<open>error + 'a\<close>
  with \<open>Inl\<close> for a rejection. A state updater passed to \<open>setBusinesses\<close> is a function
  from the store to the store.
\<close>

subsection \<open>Data model (types.ts)\<close>

datatype BusinessStatus = DISCOVERED | EMAILED | REPLIED

text \<open>The string value of the enum, as it is written to a CSV cell.\<close>

fun statusText :: "BusinessStatus \<Rightarrow> string" where
  "statusText DISCOVERED = ''Discovered''"
| "statusText EMAILED = ''Emailed''"
| "statusText REPLIED = ''Replied''"

text \<open>
  A JSON number is only ever copied by this program; it is a rational here.
\<close>

type_synonym number = rat

text \<open>
  \<open>Business\<close>: the fields of the interface, followed by the properties that the
  map-based Apps attach to the object (\<open>lat\<close>, \<open>lng\<close>, \<open>websiteUri\<close>, \<open>rating\<close>,
  \<open>userRatingCount\<close>), absent (\<open>None\<close>) until they are written. The field \<open>id\<close> is
  \<open>idB\<close>.
\<close>

record Business =
  idB :: string
  discoveryName :: string
  discoveryWebsite :: string
  companyName :: string
  contactName :: string
  address :: string
  phone :: string
  email :: string
  description :: string
  status :: BusinessStatus
  dateFound :: string
  emailThreadId :: string
  isResearching :: bool
  areaSearched :: string
  businessType :: string
  lat :: "number option"
  lng :: "number option"
  websiteUri :: "string option"
  rating :: "number option"
  userRatingCount :: "number option"

record BusinessDiscovery =
  name :: string
  website :: string

text \<open>\<open>ResearchedBusinessData\<close>; its fields carry the suffix \<open>_r\<close>.\<close>

record ResearchedBusinessData =
  companyName_r :: string
  contactName_r :: string
  address_r :: string
  phone_r :: string
  email_r :: string
  description_r :: string

text \<open>A thrown \<open>Error\<close> with its message.\<close>

datatype error = Error string

subsection \<open>String primitives of the host language\<close>

text \<open>White space and line terminators that \<open>String.prototype.trim\<close> strips, below 256.\<close>

definition isWhiteSpace :: "char \<Rightarrow> bool" where
  "isWhiteSpace c = (c = CHR 0x09 \<or> c = CHR 0x0A \<or> c = CHR 0x0B \<or> c = CHR 0x0C
     \<or> c = CHR 0x0D \<or> c = CHR 0x20 \<or> c = CHR 0xA0)"

definition trim :: "string \<Rightarrow> string" where
  "trim s = rev (dropWhile isWhiteSpace (rev (dropWhile isWhiteSpace s)))"

text \<open>\<open>s.indexOf(c)\<close> for a one-character \<open>c\<close>; \<open>-1\<close> is \<open>None\<close>.\<close>

fun indexOf :: "char \<Rightarrow> string \<Rightarrow> nat option" where
  "indexOf c [] = None"
| "indexOf c (x # xs) = (if x = c then Some 0 else map_option Suc (indexOf c xs))"

text \<open>\<open>s.includes(c)\<close> for a one-character \<open>c\<close>.\<close>

definition includesChar :: "char \<Rightarrow> string \<Rightarrow> bool" where
  "includesChar c s = (c \<in> set s)"

text \<open>
  \<open>s.split(c)\<close> for a one-character separator: never empty, one more part than
  separators. The empty result of the recursive call cannot occur.
\<close>

fun split :: "char \<Rightarrow> string \<Rightarrow> string list" where
  "split c [] = [[]]"
| "split c (x # xs) =
     (if x = c then [] # split c xs
      else (case split c xs of [] \<Rightarrow> [[x]] | p # ps \<Rightarrow> (x # p) # ps))"

definition startsWith :: "string \<Rightarrow> string \<Rightarrow> bool" where
  "startsWith pre s = (take (length pre) s = pre)"

text \<open>\<open>Date.now()\<close> inside a template literal: the decimal digits of the reading.\<close>

fun digits :: "nat \<Rightarrow> string" where
  "digits n = (if n < 10 then [char_of (48 + n)] else digits (n div 10) @ [char_of (48 + n mod 10)])"

declare digits.simps [simp del]

subsection \<open>The streaming discovery parser (geminiService.ts)\<close>

text \<open>
  The test applied to one trimmed line, in the loop and again after it: the line holds a
  \<open>|\<close>, splits into at least two parts, and the trimmed first two parts are a non-empty
  name and a non-empty website that starts with \<open>http\<close>. The result is the argument of the
  call to \<open>onDiscovery\<close>, or \<open>None\<close> when there is no call.
\<close>

definition parseLine :: "string \<Rightarrow> BusinessDiscovery option" where
  "parseLine line =
     (if includesChar CHR ''|'' line then
        (case split CHR ''|'' line of
           p0 # p1 # _ \<Rightarrow>
             (let nm = trim p0; ws = trim p1
              in if nm \<noteq> [] \<and> ws \<noteq> [] \<and> startsWith ''http'' ws
                 then Some \<lparr>name = nm, website = ws\<rparr> else None)
         | _ \<Rightarrow> None)
      else None)"

text \<open>
  The inner \<open>while\<close> loop: as long as the buffer holds a newline, cut the line before it,
  keep the rest, and call \<open>onDiscovery\<close> on a valid line. \<open>onDiscovery\<close> is a state
  transformer \<open>f\<close>; the loop returns the callback's state and the remaining buffer.
\<close>

function drain :: "(BusinessDiscovery \<Rightarrow> 's \<Rightarrow> 's) \<Rightarrow> string \<Rightarrow> 's \<Rightarrow> 's \<times> string" where
  "drain f buffer s =
     (case indexOf CHR 0x0A buffer of
        None \<Rightarrow> (s, buffer)
      | Some newlineIndex \<Rightarrow>
          (let line = trim (take newlineIndex buffer);
               buffer' = drop (newlineIndex + 1) buffer
           in drain f buffer' (case parseLine line of None \<Rightarrow> s | Some d \<Rightarrow> f d s)))"
  by pat_completeness auto
termination
proof (relation "measure (\<lambda>(f, buffer, s). length buffer)")
  show "wf (measure (\<lambda>(f, buffer, s). length buffer))" by simp
next
  fix f :: "BusinessDiscovery \<Rightarrow> 's \<Rightarrow> 's" and buffer s x2 xa xb
  assume "indexOf CHR 0x0A buffer = Some x2" and "xb = drop (x2 + 1) buffer"
  moreover have "indexOf c b = Some i \<Longrightarrow> i < length b" for c b i
    by (induction b arbitrary: i) (auto split: if_splits)
  ultimately show "((f, xb, case parseLine xa of None \<Rightarrow> s | Some d \<Rightarrow> f d s), f, buffer, s)
      \<in> measure (\<lambda>(f, buffer, s). length buffer)"
    by fastforce
qed

declare drain.simps [simp del]

text \<open>
  The response stream: the chunks it yields, and whether it then ends or throws (a call
  that rejects before the first chunk is a stream that throws after no chunk).
\<close>

datatype stream_end = EndOfStream | StreamFailure

record responseStream =
  chunks :: "string list"
  ending :: stream_end

text \<open>The \<open>for await\<close> loop over the chunks: append the chunk, then drain.\<close>

fun consume :: "(BusinessDiscovery \<Rightarrow> 's \<Rightarrow> 's) \<Rightarrow> string list \<Rightarrow> string \<Rightarrow> 's \<Rightarrow> 's \<times> string" where
  "consume f [] buffer s = (s, buffer)"
| "consume f (chunk # rest) buffer s =
     (case drain f (buffer @ chunk) s of (s', buffer') \<Rightarrow> consume f rest buffer' s')"

text \<open>The code after the loop: what is left in the buffer is trimmed and tested once more.\<close>

definition flush :: "(BusinessDiscovery \<Rightarrow> 's \<Rightarrow> 's) \<Rightarrow> string \<Rightarrow> 's \<Rightarrow> 's" where
  "flush f buffer s =
     (if includesChar CHR ''|'' (trim buffer)
      then (case parseLine (trim buffer) of None \<Rightarrow> s | Some d \<Rightarrow> f d s)
      else s)"

text \<open>
  \<open>findBusinessesStream\<close>: the callback's state after every call made, and the settled
  promise. A failure of the stream skips the code after the loop and is rethrown as one
  new error.
\<close>

definition findBusinessesStream ::
  "responseStream \<Rightarrow> (BusinessDiscovery \<Rightarrow> 's \<Rightarrow> 's) \<Rightarrow> 's \<Rightarrow> 's \<times> (error + unit)" where
  "findBusinessesStream rs onDiscovery s =
     (case consume onDiscovery (chunks rs) [] s of
        (s', buffer) \<Rightarrow>
          (case ending rs of
             EndOfStream \<Rightarrow> (flush onDiscovery buffer s', Inr ())
           | StreamFailure \<Rightarrow>
               (s', Inl (Error ''Failed to find businesses using Gemini API stream.''))))"

subsection \<open>Types of the places service (placesService.ts)\<close>

text \<open>
  A place object as the places API returns it: \<open>displayName_j\<close> is \<open>displayName?.text\<close>,
  a location is its latitude and longitude, and an absent property is \<open>None\<close>. The opening
  hours are copied by the service and read by nothing; they are left out.
\<close>

record placeJson =
  id_j :: string
  displayName_j :: "string option"
  location_j :: "(number \<times> number) option"
  primaryType_j :: "string option"
  formattedAddress_j :: "string option"
  websiteUri_j :: "string option"
  nationalPhoneNumber_j :: "string option"
  rating_j :: "number option"
  userRatingCount_j :: "number option"

text \<open>\<open>PlaceSearchResult\<close>; its fields carry the suffix \<open>_p\<close>.\<close>

record PlaceSearchResult =
  id_p :: string
  displayName_p :: string
  location_p :: "(number \<times> number) option"
  primaryType_p :: string
  formattedAddress_p :: "string option"
  websiteUri_p :: "string option"
  nationalPhoneNumber_p :: "string option"
  rating_p :: "number option"
  userRatingCount_p :: "number option"

datatype areaType = Circle | Rectangle

text \<open>
  \<open>SearchArea\<close>: a circle is its center and radius, a rectangle its low and high corners.
\<close>

record SearchArea =
  type_a :: areaType
  circle_a :: "((number \<times> number) \<times> number) option"
  rectangle_a :: "((number \<times> number) \<times> (number \<times> number)) option"

text \<open>
  What \<open>PLACE_TYPES[normalized]\<close> can be when it is truthy or replaced by \<open>[]\<close>: an array
  of the table, or a property that the object literal inherits. Of the properties of
  \<open>Object.prototype\<close> only \<open>constructor\<close> (the function \<open>Object\<close>) and \<open>__proto__\<close>
  (the prototype itself) have a name without a capital letter, so only they can be met by
  a lower-cased key.
\<close>

datatype placeTypesValue = TypeList "string list" | ObjectConstructor | ObjectPrototype

text \<open>
  \<open>placeTypes.length === 0\<close>, \<open>placeTypes.length > 0\<close> and \<open>placeTypes[0]\<close>: the function
  \<open>Object\<close> has length 1 and no element, the prototype has no length and no element.
\<close>

fun lengthIsZero :: "placeTypesValue \<Rightarrow> bool" where
  "lengthIsZero (TypeList ts) = (ts = [])"
| "lengthIsZero ObjectConstructor = False"
| "lengthIsZero ObjectPrototype = False"

fun lengthIsPositive :: "placeTypesValue \<Rightarrow> bool" where
  "lengthIsPositive (TypeList ts) = (ts \<noteq> [])"
| "lengthIsPositive ObjectConstructor = True"
| "lengthIsPositive ObjectPrototype = False"

fun firstType :: "placeTypesValue \<Rightarrow> string option" where
  "firstType (TypeList (t # ts)) = Some t"
| "firstType (TypeList []) = None"
| "firstType ObjectConstructor = None"
| "firstType ObjectPrototype = None"

text \<open>
  The two request bodies of \<open>searchPlacesInArea\<close>, as handed to \<open>JSON.stringify\<close>: the
  nearby body with \<open>includedTypes\<close>, the area and \<open>maxResultCount\<close>; the text body with
  \<open>textQuery\<close>, the area, \<open>pageSize\<close>, \<open>includedType\<close> (\<open>None\<close> when absent or undefined)
  and whether \<open>strictTypeFiltering\<close> is set. A count is \<open>None\<close> when it is \<open>NaN\<close>.
\<close>

datatype searchBody =
    NearbyBody placeTypesValue "(number \<times> number) \<times> number" "number option"
  | TextBody string "(number \<times> number) \<times> (number \<times> number)" "number option" "string option" bool

text \<open>What \<open>fetch\<close> resolves to: \<open>ok\<close>, \<open>status\<close>, \<open>text()\<close> and \<open>json()\<close>.\<close>

record 'j response =
  ok :: bool
  statusCode :: nat
  bodyText :: string
  json :: "error + 'j"

subsection \<open>Research and geocoding services (geminiService.ts)\<close>

text \<open>
  The outside world. \<open>generateContentStream\<close> answers a prompt with a response stream;
  \<open>generateContent\<close> followed by \<open>JSON.parse\<close> answers a company name and website with
  the researched record or fails (a response that parses has the six strings of its
  declared type, as the response schema requires); \<open>fetchGeocode\<close> answers a URL with the parsed body
  (its \<open>status\<close> and the \<open>geometry.location\<close> of each result, as latitude and longitude)
  or fails. \<open>mapsKey\<close> is \<open>process.env.GOOGLE_MAPS_API_KEY\<close>, \<open>None\<close> when undefined; an
  undefined and an empty key are the falsy ones.
  \<open>clock k\<close> is what the \<open>k\<close>-th admission of a run reads from the clock: \<open>Date.now()\<close>
  and the date part of \<open>new Date().toISOString()\<close>. \<open>fetchPlaces\<close> answers the URL, key,
  field mask and body of a search, \<open>fetchPlaceDetails\<close> the URL, key and field mask of a
  details request; \<open>parseInt10\<close> is \<open>parseInt(s, 10)\<close>, \<open>None\<close> for \<open>NaN\<close>.
  \<open>geminiKey\<close> is \<open>process.env.API_KEY\<close>, and \<open>newGoogleGenAI\<close> is the constructor of the
  client library applied to it: it returns the client, whose two calls are
  \<open>generateContentStream\<close> and \<open>generateContent\<close>, or throws.
\<close>

record geocodeData =
  status_g :: string
  results_g :: "(number \<times> number) list"

record world =
  generateContentStream :: "string \<Rightarrow> responseStream"
  generateContent :: "string \<Rightarrow> string \<Rightarrow> error + ResearchedBusinessData"
  fetchGeocode :: "string \<Rightarrow> error + geocodeData"
  encodeURIComponent :: "string \<Rightarrow> string"
  mapsKey :: "string option"
  clock :: "nat \<Rightarrow> nat \<times> string"
  fetchPlaces :: "string \<Rightarrow> string \<Rightarrow> string \<Rightarrow> searchBody \<Rightarrow> error + (placeJson list option) response"
  fetchPlaceDetails :: "string \<Rightarrow> string \<Rightarrow> string \<Rightarrow> error + placeJson response"
  parseInt10 :: "string \<Rightarrow> number option"
  geminiKey :: "string option"
  newGoogleGenAI :: "string option \<Rightarrow> error + unit"

text \<open>
  The top level of the module, run once when the module is loaded and outside every
  \<open>try\<close>: \<open>const ai = new GoogleGenAI({ apiKey: process.env.API_KEY })\<close>. The module has
  its exports when this statement returns and none when it throws.
\<close>

definition geminiServiceModule :: "world \<Rightarrow> error + unit" where
  "geminiServiceModule w = newGoogleGenAI w (geminiKey w)"

definition discoveryPrompt :: "string \<Rightarrow> string \<Rightarrow> string \<Rightarrow> string" where
  "discoveryPrompt location bType numResults =
     (if numResults = ''ALL'' then ''Provide a comprehensive list of all''
      else ''List the top '' @ numResults)
     @ '' '' @ bType @ '' in '' @ location
     @ ''. For each business, provide only its name and official website URL. Stream each result as soon as you find it, formatted as a single line: Business Name | https://website.url. Do not add any other commentary, headers, or formatting.''"

text \<open>\<open>findBusinessesStream\<close> with its request: the prompt is built and sent.\<close>

definition findBusinessesStreamFor ::
  "world \<Rightarrow> string \<Rightarrow> string \<Rightarrow> string \<Rightarrow> (BusinessDiscovery \<Rightarrow> 's \<Rightarrow> 's) \<Rightarrow> 's
     \<Rightarrow> 's \<times> (error + unit)" where
  "findBusinessesStreamFor w location bType numResults onDiscovery s =
     findBusinessesStream (generateContentStream w (discoveryPrompt location bType numResults))
       onDiscovery s"

text \<open>\<open>researchBusiness\<close>: any failure is rethrown as one error naming the business.\<close>

definition researchBusiness :: "world \<Rightarrow> string \<Rightarrow> string \<Rightarrow> error + ResearchedBusinessData" where
  "researchBusiness w businessName businessWebsite =
     (case generateContent w businessName businessWebsite of
        Inr researchedData \<Rightarrow> Inr researchedData
      | Inl e \<Rightarrow> Inl (Error (''Failed to research business '' @ [CHR 0x22] @ businessName
                        @ [CHR 0x22] @ ''.'')))"

text \<open>
  \<open>geocodeAddress\<close>: \<open>null\<close> (\<open>None\<close>) without a key, on a failed fetch and on a status
  other than \<open>OK\<close> or an empty result list; its promise never rejects.
\<close>

definition geocodeAddress :: "world \<Rightarrow> string \<Rightarrow> error + (number \<times> number) option" where
  "geocodeAddress w addr =
     (case mapsKey w of
        None \<Rightarrow> Inr None
      | Some apiKey \<Rightarrow>
          if apiKey = [] then Inr None
          else (case fetchGeocode w
                  (''https://maps.googleapis.com/maps/api/geocode/json?address=''
                     @ encodeURIComponent w addr @ ''&key='' @ apiKey) of
                  Inl e \<Rightarrow> Inr None
                | Inr d \<Rightarrow>
                    (case results_g d of
                       loc # _ \<Rightarrow> if status_g d = ''OK'' then Inr (Some loc) else Inr None
                     | [] \<Rightarrow> Inr None)))"

subsection \<open>The Candidate Store and its updaters (App)\<close>

text \<open>
  The state of the App, with the variables local to one run of \<open>handleSearch\<close>:
  \<open>discoveredWebsitesThisRun\<close>, the research calls \<open>launched\<close> by admissions, in order,
  and \<open>tick\<close>, the number of clock readings taken by admissions. The state variable
  \<open>error\<close> is \<open>errorBanner\<close>.
\<close>

record app =
  businesses :: "Business list"
  isLoading :: bool
  researchMessage :: string
  errorBanner :: "string option"
  discoveredWebsitesThisRun :: "string set"
  launched :: "Business list"
  tick :: nat

text \<open>
  The updater of a successful research in the stream App (also its retry, which adds the
  date): \<open>{ ...b, ...researchedData, isResearching: false }\<close> on the record with the id.
\<close>

definition spreadResearched :: "ResearchedBusinessData \<Rightarrow> Business \<Rightarrow> Business" where
  "spreadResearched researchedData b =
     b\<lparr>companyName := companyName_r researchedData,
       contactName := contactName_r researchedData,
       address := address_r researchedData,
       phone := phone_r researchedData,
       email := email_r researchedData,
       description := description_r researchedData\<rparr>"

text \<open>\<open>...coords\<close>: spreading \<open>undefined\<close> or \<open>null\<close> adds nothing.\<close>

fun spreadCoords :: "(number \<times> number) option \<Rightarrow> Business \<Rightarrow> Business" where
  "spreadCoords None b = b"
| "spreadCoords (Some (la, lo)) b = b\<lparr>lat := Some la, lng := Some lo\<rparr>"

definition mergeResearched_stream :: "string \<Rightarrow> ResearchedBusinessData \<Rightarrow> Business list \<Rightarrow> Business list" where
  "mergeResearched_stream bid researchedData prev =
     map (\<lambda>b. if idB b = bid then (spreadResearched researchedData b)\<lparr>isResearching := False\<rparr> else b) prev"

definition mergeRetried_stream ::
  "string \<Rightarrow> ResearchedBusinessData \<Rightarrow> string \<Rightarrow> Business list \<Rightarrow> Business list" where
  "mergeRetried_stream bid researchedData today prev =
     map (\<lambda>b. if idB b = bid
               then (spreadResearched researchedData b)\<lparr>isResearching := False, dateFound := today\<rparr>
               else b) prev"

definition mergeResearched_geo ::
  "string \<Rightarrow> ResearchedBusinessData \<Rightarrow> (number \<times> number) option \<Rightarrow> Business list \<Rightarrow> Business list" where
  "mergeResearched_geo bid researchedData coords prev =
     map (\<lambda>b. if idB b = bid
               then (spreadCoords coords (spreadResearched researchedData b))\<lparr>isResearching := False\<rparr>
               else b) prev"

text \<open>The updater of every \<open>catch\<close>: the message goes into \<open>description\<close>.\<close>

definition markFailed :: "string \<Rightarrow> string \<Rightarrow> Business list \<Rightarrow> Business list" where
  "markFailed msg bid prev =
     map (\<lambda>b. if idB b = bid then b\<lparr>description := msg, isResearching := False\<rparr> else b) prev"

text \<open>The first updater of \<open>handleRetryResearch\<close>.\<close>

definition markResearching :: "string \<Rightarrow> Business list \<Rightarrow> Business list" where
  "markResearching bid prev =
     map (\<lambda>b. if idB b = bid then b\<lparr>isResearching := True\<rparr> else b) prev"

subsection \<open>Enrichment (App)\<close>

text \<open>
  \<open>processResearchAndGeocoding\<close> of the geo App. \<open>tryResearch_geo\<close> is the body of its
  \<open>try\<close>, which fails when the research fails; the \<open>catch\<close> turns the failure into the
  failure updater, so the promise of the whole function resolves.
\<close>

definition tryResearch_geo :: "world \<Rightarrow> Business \<Rightarrow> Business list \<Rightarrow> error + Business list" where
  "tryResearch_geo w business prev =
     (case researchBusiness w (discoveryName business) (discoveryWebsite business) of
        Inl e \<Rightarrow> Inl e
      | Inr researchedData \<Rightarrow>
          (case (if address_r researchedData \<noteq> [] \<and> address_r researchedData \<noteq> ''Not Found''
                 then geocodeAddress w (address_r researchedData) else Inr None) of
             Inl e \<Rightarrow> Inl e
           | Inr coords \<Rightarrow> Inr (mergeResearched_geo (idB business) researchedData coords prev)))"

definition processResearchAndGeocoding_geo ::
  "world \<Rightarrow> Business \<Rightarrow> Business list \<Rightarrow> error + Business list" where
  "processResearchAndGeocoding_geo w business prev =
     (case tryResearch_geo w business prev of
        Inr s \<Rightarrow> Inr s
      | Inl researchError \<Rightarrow> Inr (markFailed ''Research failed.'' (idB business) prev))"

text \<open>
  The research chained to an admission in the stream App:
  \<open>researchBusiness(...).then(...).catch(...)\<close>.
\<close>

definition researchAdmitted_stream :: "world \<Rightarrow> Business \<Rightarrow> Business list \<Rightarrow> error + Business list" where
  "researchAdmitted_stream w newBusiness prev =
     (case researchBusiness w (discoveryName newBusiness) (discoveryWebsite newBusiness) of
        Inr researchedData \<Rightarrow> Inr (mergeResearched_stream (idB newBusiness) researchedData prev)
      | Inl researchError \<Rightarrow> Inr (markFailed ''Research failed.'' (idB newBusiness) prev))"

text \<open>
  \<open>handleRetryResearch\<close>. Nothing happens for an id that is not in the store. The store
  between the first updater and the settling of the research is \<open>markResearching\<close> of
  the store.
\<close>

definition handleRetryResearch_stream ::
  "world \<Rightarrow> string \<Rightarrow> string \<Rightarrow> Business list \<Rightarrow> error + Business list" where
  "handleRetryResearch_stream w today businessId bs =
     (case find (\<lambda>b. idB b = businessId) bs of
        None \<Rightarrow> Inr bs
      | Some businessToRetry \<Rightarrow>
          (case researchBusiness w (discoveryName businessToRetry) (discoveryWebsite businessToRetry) of
             Inr researchedData \<Rightarrow>
               Inr (mergeRetried_stream businessId researchedData today (markResearching businessId bs))
           | Inl e \<Rightarrow>
               Inr (markFailed ''Research failed again.'' businessId (markResearching businessId bs))))"

definition handleRetryResearch_geo ::
  "world \<Rightarrow> string \<Rightarrow> string \<Rightarrow> Business list \<Rightarrow> error + Business list" where
  "handleRetryResearch_geo w today businessId bs =
     (case find (\<lambda>b. idB b = businessId) bs of
        None \<Rightarrow> Inr bs
      | Some businessToRetry \<Rightarrow>
          processResearchAndGeocoding_geo w (businessToRetry\<lparr>dateFound := today\<rparr>)
            (markResearching businessId bs))"

subsection \<open>Discovery by stream (App)\<close>

text \<open>
  \<open>onDiscovery\<close>, the same text in the stream App and the geo App: a discovery without a
  website, or whose website is in the store or was admitted in this run, changes nothing;
  any other is appended with an id made of the clock reading and the website, and its
  research is launched.
\<close>

definition newBusinessOf :: "nat \<times> string \<Rightarrow> string \<Rightarrow> string \<Rightarrow> BusinessDiscovery \<Rightarrow> Business" where
  "newBusinessOf reading location bType discovery =
     \<lparr>idB = digits (fst reading) @ ''-'' @ website discovery,
      discoveryName = name discovery,
      discoveryWebsite = website discovery,
      companyName = [], contactName = [], address = [], phone = [], email = [],
      description = [],
      status = DISCOVERED,
      dateFound = snd reading,
      emailThreadId = ''N/A'',
      isResearching = True,
      areaSearched = location,
      businessType = bType,
      lat = None, lng = None, websiteUri = None, rating = None, userRatingCount = None\<rparr>"

definition onDiscovery :: "world \<Rightarrow> string \<Rightarrow> string \<Rightarrow> BusinessDiscovery \<Rightarrow> app \<Rightarrow> app" where
  "onDiscovery w location bType discovery st =
     (let alreadyExists =
            (list_ex (\<lambda>b. discoveryWebsite b = website discovery) (businesses st)
             \<or> website discovery \<in> discoveredWebsitesThisRun st)
      in if website discovery = [] \<or> alreadyExists then st
         else (let newBusiness = newBusinessOf (clock w (tick st)) location bType discovery
               in st\<lparr>discoveredWebsitesThisRun := insert (website discovery) (discoveredWebsitesThisRun st),
                     launched := launched st @ [newBusiness],
                     tick := tick st + 1,
                     businesses := businesses st @ [newBusiness]\<rparr>))"

text \<open>
  The start of \<open>handleSearch\<close>: the three setters, and the fresh variables of the run.
\<close>

definition beginSearch :: "app \<Rightarrow> app" where
  "beginSearch st =
     st\<lparr>isLoading := True, errorBanner := None,
        researchMessage := ''Discovering businesses...'',
        discoveredWebsitesThisRun := {}, launched := [], tick := 0\<rparr>"

text \<open>\<open>handleSearch\<close> of the geo App (the stream App differs in the final message only).\<close>

definition handleSearch_geo :: "world \<Rightarrow> string \<Rightarrow> string \<Rightarrow> string \<Rightarrow> app \<Rightarrow> app" where
  "handleSearch_geo w location bType numResults st =
     (case findBusinessesStreamFor w location bType numResults (onDiscovery w location bType)
             (beginSearch st) of
        (st', Inr u) \<Rightarrow>
          st'\<lparr>researchMessage := ''Discovery stream complete. Research may still be in progress.'',
              isLoading := False\<rparr>
      | (st', Inl err) \<Rightarrow>
          st'\<lparr>errorBanner := Some ''An error occurred during discovery. Please check the console and try again.'',
              researchMessage := [],
              isLoading := False\<rparr>)"

subsection \<open>The places service (placesService.ts)\<close>

definition BASE_URL :: string where
  "BASE_URL = ''https://places.googleapis.com/v1''"

definition PLACE_TYPES :: "(string \<times> string list) list" where
  "PLACE_TYPES =
    [(''coffee shop'', [''cafe'']), (''coffee'', [''cafe'']), (''cafe'', [''cafe'']),
     (''restaurant'', [''restaurant'']),
     (''food'', [''restaurant'', ''meal_takeaway'', ''meal_delivery'']),
     (''gym'', [''gym'']), (''fitness'', [''gym'']), (''bar'', [''bar'']), (''pub'', [''bar'']),
     (''hotel'', [''lodging'']), (''retail'', [''store'']), (''shop'', [''store'']),
     (''pharmacy'', [''pharmacy'']), (''bank'', [''bank'']),
     (''gas station'', [''gas_station'']), (''hospital'', [''hospital'']),
     (''clinic'', [''hospital'']), (''school'', [''school'']),
     (''university'', [''university'']), (''library'', [''library'']), (''park'', [''park'']),
     (''museum'', [''museum'']), (''theater'', [''movie_theater'']),
     (''cinema'', [''movie_theater'']), (''beauty salon'', [''beauty_salon'']),
     (''hair salon'', [''beauty_salon'']), (''salon'', [''beauty_salon'']),
     (''salons'', [''beauty_salon'']), (''spa'', [''spa'']),
     (''car repair'', [''car_repair'']), (''auto repair'', [''car_repair'']),
     (''dentist'', [''dentist'']), (''doctor'', [''doctor'']), (''lawyer'', [''lawyer'']),
     (''accountant'', [''accountant'']), (''real estate'', [''real_estate_agency'']),
     (''insurance'', [''insurance_agency'']), (''bakery'', [''bakery'']),
     (''book store'', [''book_store'']), (''clothing store'', [''clothing_store'']),
     (''electronics store'', [''electronics_store'']),
     (''furniture store'', [''furniture_store'']), (''hardware store'', [''hardware_store'']),
     (''jewelry store'', [''jewelry_store'']), (''shoe store'', [''shoe_store'']),
     (''sporting goods store'', [''sporting_goods_store'']),
     (''supermarket'', [''supermarket'']), (''department store'', [''department_store'']),
     (''convenience store'', [''convenience_store'']), (''florist'', [''florist'']),
     (''pet store'', [''pet_store'']), (''toy store'', [''toy_store'']),
     (''travel agency'', [''travel_agency'']), (''veterinary care'', [''veterinary_care''])]"

text \<open>\<open>toLowerCase\<close> on code units below 256: the letters A to Z and the accented capitals.\<close>

definition lowerChar :: "char \<Rightarrow> char" where
  "lowerChar c =
     (let n = (of_char c :: nat)
      in if (65 \<le> n \<and> n \<le> 90) \<or> (192 \<le> n \<and> n \<le> 222 \<and> n \<noteq> 215) then char_of (n + 32) else c)"

definition toLowerCase :: "string \<Rightarrow> string" where
  "toLowerCase s = map lowerChar s"

text \<open>
  \<open>getPlaceTypes\<close>: \<open>PLACE_TYPES[normalized]\<close> when it is truthy, and \<open>[]\<close> otherwise. The
  table is an object literal, so beside its own keys the lookup finds the two inherited
  properties, both truthy.
\<close>

definition getPlaceTypes :: "string \<Rightarrow> placeTypesValue" where
  "getPlaceTypes bType =
     (let normalized = trim (toLowerCase bType)
      in case map_of PLACE_TYPES normalized of
           Some mappedTypes \<Rightarrow> TypeList mappedTypes
         | None \<Rightarrow>
             if normalized = ''constructor'' then ObjectConstructor
             else if normalized = ''__proto__'' then ObjectPrototype
             else TypeList [])"

definition makePlacesRequest ::
  "world \<Rightarrow> string \<Rightarrow> searchBody \<Rightarrow> string \<Rightarrow> error + placeJson list option" where
  "makePlacesRequest w endpoint body fieldMask =
     (case mapsKey w of
        None \<Rightarrow> Inl (Error ''Google Maps API key is not configured'')
      | Some API_KEY \<Rightarrow>
          if API_KEY = [] then Inl (Error ''Google Maps API key is not configured'')
          else (case fetchPlaces w (BASE_URL @ endpoint) API_KEY fieldMask body of
                  Inl e \<Rightarrow> Inl e
                | Inr resp \<Rightarrow>
                    if \<not> ok resp
                    then Inl (Error (''Places API error: '' @ digits (statusCode resp) @ '' - ''
                                      @ bodyText resp))
                    else json resp))"

definition makePlaceDetailsRequest :: "world \<Rightarrow> string \<Rightarrow> string \<Rightarrow> error + placeJson" where
  "makePlaceDetailsRequest w placeId fieldMask =
     (case mapsKey w of
        None \<Rightarrow> Inl (Error ''Google Maps API key is not configured'')
      | Some API_KEY \<Rightarrow>
          if API_KEY = [] then Inl (Error ''Google Maps API key is not configured'')
          else (case fetchPlaceDetails w (BASE_URL @ ''/places/'' @ placeId) API_KEY fieldMask of
                  Inl e \<Rightarrow> Inl e
                | Inr resp \<Rightarrow>
                    if \<not> ok resp
                    then Inl (Error (''Place Details API error: '' @ digits (statusCode resp)
                                      @ '' - '' @ bodyText resp))
                    else json resp))"

text \<open>\<open>x || ''\<close> and \<open>x || y\<close> on an optional string: absent and empty are falsy.\<close>

fun orElse :: "string option \<Rightarrow> string \<Rightarrow> string" where
  "orElse None d = d"
| "orElse (Some x) d = (if x = [] then d else x)"

text \<open>\<open>x || 0\<close> on an optional number.\<close>

fun orZero :: "number option \<Rightarrow> number" where
  "orZero None = 0"
| "orZero (Some x) = x"

text \<open>\<open>Math.min(maxResults, 20)\<close>, \<open>NaN\<close> for \<open>NaN\<close>.\<close>

definition capResults :: "number option \<Rightarrow> number option" where
  "capResults maxResults = map_option (\<lambda>n. min n 20) maxResults"

definition searchResultOf :: "placeJson \<Rightarrow> PlaceSearchResult" where
  "searchResultOf place =
     \<lparr>id_p = id_j place,
      displayName_p = orElse (displayName_j place) [],
      location_p = location_j place,
      primaryType_p = orElse (primaryType_j place) [],
      formattedAddress_p = Some (orElse (formattedAddress_j place) []),
      websiteUri_p = None, nationalPhoneNumber_p = None, rating_p = None,
      userRatingCount_p = None\<rparr>"

definition searchFieldMask :: string where
  "searchFieldMask =
     ''places.id,places.displayName,places.location,places.primaryType,places.formattedAddress''"

text \<open>
  \<open>searchPlacesInArea\<close>: a nearby search for a circle (place types of length zero are
  refused), a text search for a rectangle (filtered by the first place type when the
  length is positive), and no request and no result for an area whose shape is missing.
\<close>

definition searchPlacesInArea ::
  "world \<Rightarrow> string \<Rightarrow> SearchArea \<Rightarrow> number option \<Rightarrow> error + PlaceSearchResult list" where
  "searchPlacesInArea w bType searchArea maxResults =
     (let placeTypes = getPlaceTypes bType
      in case (type_a searchArea, circle_a searchArea, rectangle_a searchArea) of
           (Circle, Some c, _) \<Rightarrow>
             if lengthIsZero placeTypes
             then Inl (Error (''Business type '' @ [CHR 0x22] @ bType @ [CHR 0x22]
                    @ '' is not supported. Please use a supported business type like ''
                    @ [CHR 0x22] @ ''coffee shop'' @ [CHR 0x22] @ '', '' @ [CHR 0x22]
                    @ ''restaurant'' @ [CHR 0x22] @ '', '' @ [CHR 0x22] @ ''gym''
                    @ [CHR 0x22] @ '', etc.''))
             else (case makePlacesRequest w ''/places:searchNearby''
                          (NearbyBody placeTypes c (capResults maxResults)) searchFieldMask of
                     Inl e \<Rightarrow> Inl e
                   | Inr None \<Rightarrow> Inr []
                   | Inr (Some places) \<Rightarrow> Inr (map searchResultOf places))
         | (Rectangle, _, Some r) \<Rightarrow>
             (case makePlacesRequest w ''/places:searchText''
                     (if lengthIsPositive placeTypes
                      then TextBody bType r (capResults maxResults) (firstType placeTypes) True
                      else TextBody bType r (capResults maxResults) None False)
                     searchFieldMask of
                Inl e \<Rightarrow> Inl e
              | Inr None \<Rightarrow> Inr []
              | Inr (Some places) \<Rightarrow> Inr (map searchResultOf places))
         | _ \<Rightarrow> Inr [])"

definition detailsFieldMask :: string where
  "detailsFieldMask =
     ''displayName,formattedAddress,websiteUri,nationalPhoneNumber,rating,userRatingCount,currentOpeningHours,location,primaryType''"

definition getPlaceDetails :: "world \<Rightarrow> string \<Rightarrow> error + PlaceSearchResult" where
  "getPlaceDetails w placeId =
     (case makePlaceDetailsRequest w placeId detailsFieldMask of
        Inl e \<Rightarrow> Inl e
      | Inr resp \<Rightarrow>
          Inr \<lparr>id_p = placeId,
               displayName_p = orElse (displayName_j resp) [],
               location_p = location_j resp,
               primaryType_p = orElse (primaryType_j resp) [],
               formattedAddress_p = Some (orElse (formattedAddress_j resp) []),
               websiteUri_p = Some (orElse (websiteUri_j resp) []),
               nationalPhoneNumber_p = Some (orElse (nationalPhoneNumber_j resp) []),
               rating_p = Some (orZero (rating_j resp)),
               userRatingCount_p = Some (orZero (userRatingCount_j resp))\<rparr>)"

subsection \<open>Discovery and enrichment through the places index (App)\<close>

text \<open>
  The conversion of a place into a \<open>Business\<close>; reading the latitude of a place without
  a location throws (\<open>None\<close>).
\<close>

definition businessOfPlace :: "string \<Rightarrow> string \<Rightarrow> string \<Rightarrow> PlaceSearchResult \<Rightarrow> Business option" where
  "businessOfPlace today location bType place =
     (case location_p place of
        None \<Rightarrow> None
      | Some (la, lo) \<Rightarrow>
          Some \<lparr>idB = id_p place,
                discoveryName = displayName_p place,
                discoveryWebsite = orElse (websiteUri_p place) [],
                companyName = displayName_p place,
                contactName = [],
                address = orElse (formattedAddress_p place) [],
                phone = orElse (nationalPhoneNumber_p place) [],
                email = [],
                description = [],
                status = DISCOVERED,
                dateFound = today,
                emailThreadId = ''N/A'',
                isResearching = False,
                areaSearched = location,
                businessType = bType,
                lat = Some la, lng = Some lo,
                websiteUri = None, rating = None, userRatingCount = None\<rparr>)"

fun businessesOfPlaces ::
  "string \<Rightarrow> string \<Rightarrow> string \<Rightarrow> PlaceSearchResult list \<Rightarrow> error + Business list" where
  "businessesOfPlaces today location bType [] = Inr []"
| "businessesOfPlaces today location bType (place # places) =
     (case businessOfPlace today location bType place of
        None \<Rightarrow> Inl (Error ''TypeError: Cannot read properties of undefined'')
      | Some b \<Rightarrow>
          (case businessesOfPlaces today location bType places of
             Inl e \<Rightarrow> Inl e
           | Inr bs \<Rightarrow> Inr (b # bs)))"

text \<open>
  The updater of \<open>handleSearch\<close> in the places App: the new businesses whose id is not
  among the ids of the store are appended.
\<close>

definition addNewBusinesses :: "Business list \<Rightarrow> Business list \<Rightarrow> Business list" where
  "addNewBusinesses newBusinesses prev =
     (let existingIds = set (map idB prev);
          uniqueNewBusinesses = filter (\<lambda>b. idB b \<notin> existingIds) newBusinesses
      in prev @ uniqueNewBusinesses)"

definition handleSearch_places ::
  "world \<Rightarrow> string \<Rightarrow> string \<Rightarrow> string \<Rightarrow> SearchArea \<Rightarrow> app \<Rightarrow> app" where
  "handleSearch_places w location bType numResults searchArea st =
     (let st1 = st\<lparr>isLoading := True, errorBanner := None,
                    researchMessage := ''Discovering businesses...''\<rparr>;
          maxResults = (if numResults = ''ALL'' then Some 20 else parseInt10 w numResults)
      in case (case searchPlacesInArea w bType searchArea maxResults of
                 Inl e \<Rightarrow> Inl e
               | Inr places \<Rightarrow>
                   (case businessesOfPlaces (snd (clock w (tick st))) location bType places of
                      Inl e \<Rightarrow> Inl e
                    | Inr newBusinesses \<Rightarrow> Inr (places, newBusinesses))) of
           Inr (places, newBusinesses) \<Rightarrow>
             st1\<lparr>businesses := addNewBusinesses newBusinesses (businesses st1),
                 researchMessage := ''Found '' @ digits (length places)
                   @ '' businesses. Select businesses to research or use ''
                   @ [CHR 0x22] @ ''Research All'' @ [CHR 0x22] @ '' to enrich all results.'',
                 isLoading := False\<rparr>
         | Inl err \<Rightarrow>
             st1\<lparr>errorBanner := Some ''An error occurred during discovery. Please check the console and try again.'',
                 researchMessage := [],
                 isLoading := False\<rparr>)"

text \<open>
  \<open>processResearchAndGeocoding\<close> of the places App: the details of the place, then the
  research; the website, phone and address of the details override the researched ones,
  and fall back to what the record held.
\<close>

definition mergeResearched_places ::
  "string \<Rightarrow> ResearchedBusinessData \<Rightarrow> PlaceSearchResult \<Rightarrow> Business list \<Rightarrow> Business list" where
  "mergeResearched_places bid researchedData placeDetails prev =
     map (\<lambda>b. if idB b = bid
               then (spreadResearched researchedData b)
                      \<lparr>websiteUri := Some (orElse (websiteUri_p placeDetails) (discoveryWebsite b)),
                       phone := orElse (nationalPhoneNumber_p placeDetails) (phone b),
                       address := orElse (formattedAddress_p placeDetails) (address b),
                       rating := Some (orZero (rating_p placeDetails)),
                       userRatingCount := Some (orZero (userRatingCount_p placeDetails)),
                       isResearching := False\<rparr>
               else b) prev"

definition tryResearch_places :: "world \<Rightarrow> Business \<Rightarrow> Business list \<Rightarrow> error + Business list" where
  "tryResearch_places w business prev =
     (case getPlaceDetails w (idB business) of
        Inl e \<Rightarrow> Inl e
      | Inr placeDetails \<Rightarrow>
          (case researchBusiness w (discoveryName business) (discoveryWebsite business) of
             Inl e \<Rightarrow> Inl e
           | Inr researchedData \<Rightarrow>
               Inr (mergeResearched_places (idB business) researchedData placeDetails prev)))"

definition processResearchAndGeocoding_places ::
  "world \<Rightarrow> Business \<Rightarrow> Business list \<Rightarrow> error + Business list" where
  "processResearchAndGeocoding_places w business prev =
     (case tryResearch_places w business prev of
        Inr s \<Rightarrow> Inr s
      | Inl researchError \<Rightarrow> Inr (markFailed ''Research failed.'' (idB business) prev))"


subsection \<open>Loading the App\<close>

text \<open>
  The geo App and the places App import the research service, so they exist only when
  its module has loaded. Once mounted, the state is the initial one, and the effect on the
  maps key has put its message into \<open>error\<close> when that key is falsy.
\<close>

definition initialApp :: "world \<Rightarrow> app" where
  "initialApp w =
     \<lparr>businesses = [], isLoading = False, researchMessage = [],
      errorBanner =
        (case mapsKey w of
           None \<Rightarrow> Some ''Google Maps API key is not configured. The map will not be displayed.''
         | Some k \<Rightarrow>
             if k = []
             then Some ''Google Maps API key is not configured. The map will not be displayed.''
             else None),
      discoveredWebsitesThisRun = {}, launched = [], tick = 0\<rparr>"

definition loadApp :: "world \<Rightarrow> error + app" where
  "loadApp w =
     (case geminiServiceModule w of
        Inl e \<Rightarrow> Inl e
      | Inr u \<Rightarrow> Inr (initialApp w))"

subsection \<open>CSV export (App)\<close>

text \<open>\<open>cell.replace(/"/g, '""')\<close>.\<close>

definition doubleQuotes :: "string \<Rightarrow> string" where
  "doubleQuotes cell = concat (map (\<lambda>c. if c = CHR 0x22 then [CHR 0x22, CHR 0x22] else [c]) cell)"

text \<open>\<open>escapeCsvCell\<close> of the stream App, and of the geo and places Apps (one text).\<close>

definition escapeCsvCell_stream :: "string \<Rightarrow> string" where
  "escapeCsvCell_stream cell = [CHR 0x22] @ doubleQuotes cell @ [CHR 0x22]"

definition escapeCsvCell :: "string \<Rightarrow> string" where
  "escapeCsvCell cell = [CHR 0x22] @ (if cell \<noteq> [] then doubleQuotes cell else []) @ [CHR 0x22]"

text \<open>\<open>parts.join(sep)\<close>.\<close>

fun join :: "string \<Rightarrow> string list \<Rightarrow> string" where
  "join sep [] = []"
| "join sep [x] = x"
| "join sep (x # y # ys) = x @ sep @ join sep (y # ys)"

definition headers_stream :: "string list" where
  "headers_stream =
     [''Company Name'', ''Contact Name'', ''Address'', ''Phone'', ''Email'', ''Description'',
      ''Website'', ''Status'', ''Date Found/Updated'', ''Email Thread ID'', ''Area Searched'',
      ''Business Type'']"

definition row_stream :: "Business \<Rightarrow> string list" where
  "row_stream b =
     [companyName b, contactName b, address b, phone b, email b, description b,
      discoveryWebsite b, statusText (status b), dateFound b, emailThreadId b, areaSearched b,
      businessType b]"

text \<open>The headers and rows of the geo App and of the places App (one text).\<close>

definition headers :: "string list" where
  "headers =
     [''Company Name'', ''Contact Name'', ''Address'', ''Phone'', ''Email'', ''Website'',
      ''Description'', ''Status'', ''Date Found/Updated'', ''Email Thread ID'', ''Area Searched'',
      ''Business Type'']"

definition row :: "Business \<Rightarrow> string list" where
  "row b =
     [companyName b, contactName b, address b, phone b, email b, discoveryWebsite b,
      description b, statusText (status b), dateFound b, emailThreadId b, areaSearched b,
      businessType b]"

text \<open>
  \<open>exportToCsv\<close>: the text handed to \<open>encodeURI\<close> for the download, and nothing for an
  empty store.
\<close>

definition csvContentOf :: "(string \<Rightarrow> string) \<Rightarrow> string list \<Rightarrow> string list list \<Rightarrow> string" where
  "csvContentOf esc hs rows =
     ''data:text/csv;charset=utf-8,'' @ join '','' (map esc hs) @ [CHR 0x0D, CHR 0x0A]
       @ concat (map (\<lambda>rowArray. join '','' (map esc rowArray) @ [CHR 0x0D, CHR 0x0A]) rows)"

definition exportToCsv_stream :: "Business list \<Rightarrow> string option" where
  "exportToCsv_stream bs =
     (if bs = [] then None
      else Some (csvContentOf escapeCsvCell_stream headers_stream (map row_stream bs)))"

definition exportToCsv :: "Business list \<Rightarrow> string option" where
  "exportToCsv bs =
     (if bs = [] then None else Some (csvContentOf escapeCsvCell headers (map row bs)))"

subsection \<open>Reference definitions from the specification\<close>

text \<open>
  Reading a quoted cell back under the usual CSV quoting rules: after the opening quote,
  a doubled quote is one quote character, a single quote closes the cell and must end it.
\<close>

fun unquoteCsv :: "string \<Rightarrow> string option" where
  "unquoteCsv [] = None"
| "unquoteCsv (c # cs) =
     (if c = CHR 0x22
      then (case cs of
              [] \<Rightarrow> Some []
            | d # ds \<Rightarrow> if d = CHR 0x22 then map_option ((#) CHR 0x22) (unquoteCsv ds) else None)
      else map_option ((#) c) (unquoteCsv cs))"

fun parseCsvCell :: "string \<Rightarrow> string option" where
  "parseCsvCell [] = None"
| "parseCsvCell (c # cs) = (if c = CHR 0x22 then unquoteCsv cs else None)"

text \<open>The column order of the specification, and the field that each column shows.\<close>

definition fixedColumns :: "string list" where
  "fixedColumns =
     [''Company Name'', ''Contact Name'', ''Address'', ''Phone'', ''Email'', ''Website'',
      ''Description'', ''Status'', ''Date Found/Updated'', ''Email Thread ID'', ''Area Searched'',
      ''Business Type'']"

definition columnValue :: "Business \<Rightarrow> string \<Rightarrow> string" where
  "columnValue b title =
     (if title = ''Company Name'' then companyName b
      else if title = ''Contact Name'' then contactName b
      else if title = ''Address'' then address b
      else if title = ''Phone'' then phone b
      else if title = ''Email'' then email b
      else if title = ''Website'' then discoveryWebsite b
      else if title = ''Description'' then description b
      else if title = ''Status'' then statusText (status b)
      else if title = ''Date Found/Updated'' then dateFound b
      else if title = ''Email Thread ID'' then emailThreadId b
      else if title = ''Area Searched'' then areaSearched b
      else if title = ''Business Type'' then businessType b
      else [])"

text \<open>The order of the stream App: the specification's with Description before Website.\<close>

definition streamColumns :: "string list" where
  "streamColumns =
     [''Company Name'', ''Contact Name'', ''Address'', ''Phone'', ''Email'', ''Description'',
      ''Website'', ''Status'', ''Date Found/Updated'', ''Email Thread ID'', ''Area Searched'',
      ''Business Type'']"

text \<open>
  The frame of an update by id: the two stores have the same length and the same ids in
  the same order, and every record whose id is not \<open>bid\<close> is the same in both.
\<close>

definition unchangedExcept :: "string \<Rightarrow> Business list \<Rightarrow> Business list \<Rightarrow> bool" where
  "unchangedExcept bid prev s = list_all2 (\<lambda>b b'. idB b' = idB b \<and> (idB b = bid \<or> b' = b)) prev s"

text \<open>
  The invariant of the store under streaming discovery: the discovery websites of the
  store are pairwise distinct, every id is a run of digits, a hyphen and the discovery
  website of its record, and every website admitted in the current run is in the store.
\<close>

definition isDigitChar :: "char \<Rightarrow> bool" where
  "isDigitChar c = (48 \<le> (of_char c :: nat) \<and> (of_char c :: nat) \<le> 57)"

definition idMatchesWebsite :: "Business \<Rightarrow> bool" where
  "idMatchesWebsite b = (dropWhile isDigitChar (idB b) = CHR ''-'' # discoveryWebsite b)"

definition websites :: "Business list \<Rightarrow> string list" where
  "websites bs = map discoveryWebsite bs"

definition runInv :: "app \<Rightarrow> bool" where
  "runInv st = (distinct (websites (businesses st)) \<and> list_all idMatchesWebsite (businesses st)
     \<and> discoveredWebsitesThisRun st \<subseteq> set (websites (businesses st)))"

text \<open>A sample record and a sample world for the concrete evaluations below.\<close>

definition sampleBusiness :: Business where
  "sampleBusiness =
     \<lparr>idB = ''1700000000000-https://acme.test'',
      discoveryName = ''Acme Cafe'',
      discoveryWebsite = ''https://acme.test'',
      companyName = ''Acme Cafe LLC'', contactName = ''Ann Lee'', address = ''1 Main St'',
      phone = ''555-1234'', email = ''ann@acme.test'',
      description = ''A neighbourhood cafe.'',
      status = DISCOVERED,
      dateFound = ''2024-01-01'',
      emailThreadId = ''N/A'',
      isResearching = False,
      areaSearched = ''Austin, TX'',
      businessType = ''Coffee Shops'',
      lat = None, lng = None, websiteUri = None, rating = None, userRatingCount = None\<rparr>"

definition otherBusiness :: Business where
  "otherBusiness =
     sampleBusiness\<lparr>idB := ''1700000000001-https://beta.test'', discoveryName := ''Beta Bar'',
       discoveryWebsite := ''https://beta.test'', phone := ''555-9999''\<rparr>"

definition samplePlaceDetails :: PlaceSearchResult where
  "samplePlaceDetails =
     \<lparr>id_p = ''ChIJ-acme'', displayName_p = ''Acme Cafe'', location_p = Some (30, -97),
      primaryType_p = ''cafe'', formattedAddress_p = Some ''1 Main St, Austin'',
      websiteUri_p = Some [], nationalPhoneNumber_p = Some [], rating_p = Some 0,
      userRatingCount_p = Some 0\<rparr>"

definition notFoundData :: ResearchedBusinessData where
  "notFoundData =
     \<lparr>companyName_r = ''Acme Cafe LLC'', contactName_r = ''Not Found'', address_r = ''Not Found'',
      phone_r = ''Not Found'', email_r = [], description_r = ''A cafe.''\<rparr>"

text \<open>
  The constructor of the client library as its browser build behaves, the library being
  no part of the repository: it refuses a key that is absent or empty.
\<close>

definition browserGoogleGenAI :: "string option \<Rightarrow> error + unit" where
  "browserGoogleGenAI apiKey =
     (case apiKey of
        None \<Rightarrow> Inl (Error ''An API Key must be set when running in a browser'')
      | Some k \<Rightarrow>
          if k = [] then Inl (Error ''An API Key must be set when running in a browser'')
          else Inr ())"

text \<open>
  A world without a maps key and with a generative key, in which the stream is \<open>rs\<close> and
  every research call settles as \<open>outcome\<close>.
\<close>

definition sampleWorld :: "responseStream \<Rightarrow> error + ResearchedBusinessData \<Rightarrow> world" where
  "sampleWorld rs outcome =
     \<lparr>generateContentStream = (\<lambda>prompt. rs),
      generateContent = (\<lambda>businessName businessWebsite. outcome),
      fetchGeocode = (\<lambda>url. Inl (Error ''offline'')),
      encodeURIComponent = (\<lambda>s. s),
      mapsKey = None,
      clock = (\<lambda>k. (1700000000000 + k, ''2024-01-02'')),
      fetchPlaces = (\<lambda>url key mask body. Inl (Error ''offline'')),
      fetchPlaceDetails = (\<lambda>url key mask. Inl (Error ''offline'')),
      parseInt10 = (\<lambda>s. None),
      geminiKey = Some ''generative-key'',
      newGoogleGenAI = browserGoogleGenAI\<rparr>"

text \<open>
  A stream that yields one whole line and the start of a second one and then fails, and a
  circular search area.
\<close>

definition failingStream :: responseStream where
  "failingStream =
     \<lparr>chunks = [''Acme Cafe | https://acme.test\<newline>Beta'', '' Bar | https://be''],
      ending = StreamFailure\<rparr>"

definition sampleCircle :: SearchArea where
  "sampleCircle = \<lparr>type_a = Circle, circle_a = Some ((30, -97), 1000), rectangle_a = None\<rparr>"

text \<open>The sample world with \<open>process.env.API_KEY\<close> undefined.\<close>

definition noGenerativeKeyWorld :: world where
  "noGenerativeKeyWorld = (sampleWorld failingStream (Inr notFoundData))\<lparr>geminiKey := None\<rparr>"

definition emptyApp :: app where
  "emptyApp =
     \<lparr>businesses = [], isLoading = False, researchMessage = [], errorBanner = None,
      discoveredWebsitesThisRun = {}, launched = [], tick = 0\<rparr>"

section \<open>Properties\<close>

subsection \<open>The streaming parser\<close>

lemma indexOf_None: "(indexOf c b = None) = (c \<notin> set b)"
  by (induction b) auto

lemma indexOf_append: "indexOf c b = Some i \<Longrightarrow> indexOf c (b @ r) = Some i"
  by (induction b arbitrary: i) (auto split: if_splits)

lemma indexOf_less: "indexOf c b = Some i \<Longrightarrow> i < length b"
  by (induction b arbitrary: i) (auto split: if_splits)

lemma indexOf_first: "c \<notin> set l \<Longrightarrow> indexOf c (l @ c # r) = Some (length l)"
  by (induction l) auto

lemma drain_no_newline: "CHR 0x0A \<notin> set b \<Longrightarrow> drain f b s = (s, b)"
proof -
  assume "CHR 0x0A \<notin> set b"
  then have "indexOf CHR 0x0A b = None" by (simp add: indexOf_None)
  then show ?thesis by (simp add: drain.simps)
qed

lemma drain_line:
  "CHR 0x0A \<notin> set l \<Longrightarrow>
   drain f (l @ CHR 0x0A # r) s = drain f r (case parseLine (trim l) of None \<Rightarrow> s | Some d \<Rightarrow> f d s)"
  by (subst drain.simps) (simp add: indexOf_first)

lemma drain_rest_no_newline: "drain f b s = (s', r) \<Longrightarrow> CHR 0x0A \<notin> set r"
proof (induction f b s arbitrary: s' r rule: drain.induct)
  case (1 f buffer s)
  show ?case
  proof (cases "indexOf CHR 0x0A buffer")
    case None
    with "1.prems" show ?thesis by (simp add: drain.simps indexOf_None)
  next
    case (Some i)
    with "1.prems" "1.IH" show ?thesis by (simp add: drain.simps Let_def)
  qed
qed

lemma drain_append:
  "drain f (b @ c) s = (case drain f b s of (s', r) \<Rightarrow> drain f (r @ c) s')"
proof (induction f b s rule: drain.induct)
  case (1 f buffer s)
  show ?case
  proof (cases "indexOf CHR 0x0A buffer")
    case None
    then show ?thesis by (simp add: drain.simps [of f buffer])
  next
    case (Some i)
    then have i: "i < length buffer" by (rule indexOf_less)
    from Some have "indexOf CHR 0x0A (buffer @ c) = Some i" by (rule indexOf_append)
    with Some i "1.IH" show ?thesis
      by (simp add: drain.simps [of f buffer] drain.simps [of f "buffer @ c"] Let_def)
  qed
qed

lemma consume_concat:
  "CHR 0x0A \<notin> set b \<Longrightarrow> consume f cs b s = drain f (b @ concat cs) s"
proof (induction cs arbitrary: b s)
  case Nil
  then show ?case by (simp add: drain_no_newline)
next
  case (Cons chunk rest)
  obtain s' b' where d: "drain f (b @ chunk) s = (s', b')" by (cases "drain f (b @ chunk) s")
  then have "CHR 0x0A \<notin> set b'" by (rule drain_rest_no_newline)
  then have "consume f rest b' s' = drain f (b' @ concat rest) s'" by (rule Cons.IH)
  moreover have "drain f ((b @ chunk) @ concat rest) s = drain f (b' @ concat rest) s'"
    by (simp only: drain_append [of f "b @ chunk"] d prod.case)
  ultimately show ?case using d by simp
qed


lemma findBusinessesStream_chunking:
  assumes "concat (chunks rs) = concat (chunks rs')" and "ending rs = ending rs'"
  shows "findBusinessesStream rs f s = findBusinessesStream rs' f s"
proof -
  have "consume f (chunks rs) [] s = drain f (concat (chunks rs)) s"
    using consume_concat [of "[]" f "chunks rs" s] by simp
  moreover have "consume f (chunks rs') [] s = drain f (concat (chunks rs')) s"
    using consume_concat [of "[]" f "chunks rs'" s] by simp
  ultimately show ?thesis using assms by (simp add: findBusinessesStream_def)
qed

lemma parse_acme: "parseLine (trim ''Acme Cafe | https://acme.test'')
    = Some \<lparr>name = ''Acme Cafe'', website = ''https://acme.test''\<rparr>"
  by (simp add: parseLine_def trim_def isWhiteSpace_def includesChar_def startsWith_def)

lemma parse_not_a_line: "parseLine (trim ''Not A Line'') = None"
  by (simp add: parseLine_def trim_def isWhiteSpace_def includesChar_def)

lemma trim_beta: "trim ''Beta Bar | https://beta.test'' = ''Beta Bar | https://beta.test''"
  by (simp add: trim_def isWhiteSpace_def)

lemma parse_beta: "parseLine ''Beta Bar | https://beta.test''
    = Some \<lparr>name = ''Beta Bar'', website = ''https://beta.test''\<rparr>"
  by (simp add: parseLine_def trim_def isWhiteSpace_def includesChar_def startsWith_def)

lemma drain_text:
  "drain f ''Acme Cafe | https://acme.test\<newline>Not A Line\<newline>Beta Bar | https://beta.test'' s
   = (f \<lparr>name = ''Acme Cafe'', website = ''https://acme.test''\<rparr> s, ''Beta Bar | https://beta.test'')"
proof -
  have "drain f ''Acme Cafe | https://acme.test\<newline>Not A Line\<newline>Beta Bar | https://beta.test'' s
      = drain f ''Not A Line\<newline>Beta Bar | https://beta.test''
          (f \<lparr>name = ''Acme Cafe'', website = ''https://acme.test''\<rparr> s)"
    using drain_line [of "''Acme Cafe | https://acme.test''" f
        "''Not A Line\<newline>Beta Bar | https://beta.test''" s]
    by (simp add: parse_acme)
  also have "\<dots> = drain f ''Beta Bar | https://beta.test''
          (f \<lparr>name = ''Acme Cafe'', website = ''https://acme.test''\<rparr> s)"
    using drain_line [of "''Not A Line''" f "''Beta Bar | https://beta.test''"
        "f \<lparr>name = ''Acme Cafe'', website = ''https://acme.test''\<rparr> s"]
    by (simp add: parse_not_a_line)
  also have "\<dots> = (f \<lparr>name = ''Acme Cafe'', website = ''https://acme.test''\<rparr> s,
      ''Beta Bar | https://beta.test'')"
    by (rule drain_no_newline) simp
  finally show ?thesis .
qed

lemma flush_beta:
  "flush f ''Beta Bar | https://beta.test'' s = f \<lparr>name = ''Beta Bar'', website = ''https://beta.test''\<rparr> s"
  by (simp add: flush_def trim_beta parse_beta) (simp add: includesChar_def)

text \<open>
  Claim C3 (streaming parse correctness). However the text
  \<open>Acme Cafe | https://acme.test\<close>, newline, \<open>Not A Line\<close>, newline,
  \<open>Beta Bar | https://beta.test\<close> is cut into chunks, \<open>findBusinessesStream\<close> calls
  \<open>onDiscovery\<close> exactly twice, with Acme Cafe and then Beta Bar, and resolves: for the
  callback that records its arguments, and for any callback \<open>f\<close>. The malformed middle
  line produces no call. While the stream is open only the first call has been made and
  the trailing line is held in the buffer; it is emitted after the stream has ended.
\<close>

theorem streaming_parse_correct:
  assumes "concat (chunks rs)
      = ''Acme Cafe | https://acme.test\<newline>Not A Line\<newline>Beta Bar | https://beta.test''"
    and "ending rs = EndOfStream"
  shows "findBusinessesStream rs (\<lambda>d ds. ds @ [d]) []
        = ([\<lparr>name = ''Acme Cafe'', website = ''https://acme.test''\<rparr>,
            \<lparr>name = ''Beta Bar'', website = ''https://beta.test''\<rparr>], Inr ())
     \<and> findBusinessesStream rs f s
        = (f \<lparr>name = ''Beta Bar'', website = ''https://beta.test''\<rparr>
             (f \<lparr>name = ''Acme Cafe'', website = ''https://acme.test''\<rparr> s), Inr ())
     \<and> consume f (chunks rs) [] s
        = (f \<lparr>name = ''Acme Cafe'', website = ''https://acme.test''\<rparr> s,
           ''Beta Bar | https://beta.test'')"
proof -
  have c: "consume g (chunks rs) [] t
      = (g \<lparr>name = ''Acme Cafe'', website = ''https://acme.test''\<rparr> t,
         ''Beta Bar | https://beta.test'')" for g :: "BusinessDiscovery \<Rightarrow> 'b \<Rightarrow> 'b" and t
    using consume_concat [of "[]" g "chunks rs" t] assms(1) by (simp add: drain_text)
  have "findBusinessesStream rs g t
      = (g \<lparr>name = ''Beta Bar'', website = ''https://beta.test''\<rparr>
           (g \<lparr>name = ''Acme Cafe'', website = ''https://acme.test''\<rparr> t), Inr ())"
    for g :: "BusinessDiscovery \<Rightarrow> 'b \<Rightarrow> 'b" and t
    by (simp add: findBusinessesStream_def c assms(2) flush_beta)
  from this [of "\<lambda>d ds. ds @ [d]" "[]"] this [of f s] c [of f s] show ?thesis by simp
qed

text \<open>
  A chunking that cuts inside a URL, inside the malformed line and before the separator,
  and holds an empty chunk.
\<close>

theorem streaming_parse_correct_witness:
  "findBusinessesStream
     \<lparr>chunks = [''Acme Cafe | ht'', ''tps://acme.test\<newline>Not A'', [], '' Line\<newline>Beta Bar '', ''| https://beta.test''],
      ending = EndOfStream\<rparr> (\<lambda>d ds. ds @ [d]) []
   = ([\<lparr>name = ''Acme Cafe'', website = ''https://acme.test''\<rparr>,
       \<lparr>name = ''Beta Bar'', website = ''https://beta.test''\<rparr>], Inr ())"
  using streaming_parse_correct [of "\<lparr>chunks = [''Acme Cafe | ht'', ''tps://acme.test\<newline>Not A'', [], '' Line\<newline>Beta Bar '', ''| https://beta.test''],
      ending = EndOfStream\<rparr>", THEN conjunct1]
  by simp

subsection \<open>CSV export\<close>

lemma unquote_doubleQuotes: "unquoteCsv (doubleQuotes s @ [CHR 0x22]) = Some s"
  by (induction s) (auto simp: doubleQuotes_def)

lemma escapeCsvCell_eq: "escapeCsvCell cell = escapeCsvCell_stream cell"
  by (simp add: escapeCsvCell_def escapeCsvCell_stream_def doubleQuotes_def)

text \<open>
  Claim C7 (CSV cell escaping round-trip). Both \<open>escapeCsvCell\<close> functions wrap the cell
  in double quotes and double every embedded double quote; the description
  \<open>He said "hi", then left\<close> becomes \<open>"He said ""hi"", then left"\<close>; reading an
  escaped cell back under the CSV quoting rules gives the original string, for every
  string; and every cell of the exported text, header or row, is an escaped cell.
\<close>

theorem csv_cell_roundtrip:
  \<open>escapeCsvCell_stream ''He said "hi", then left'' = ''"He said ""hi"", then left"''
   \<and> escapeCsvCell ''He said "hi", then left'' = ''"He said ""hi"", then left"''
   \<and> parseCsvCell (escapeCsvCell_stream cell) = Some cell
   \<and> parseCsvCell (escapeCsvCell cell) = Some cell
   \<and> escapeCsvCell_stream cell = ''"'' @ doubleQuotes cell @ ''"''
   \<and> escapeCsvCell cell = ''"'' @ doubleQuotes cell @ ''"''
   \<and> exportToCsv_stream bs =
       (if bs = [] then None
        else Some (''data:text/csv;charset=utf-8,''
          @ concat (map (\<lambda>cells. join '','' (map (\<lambda>c. ''"'' @ doubleQuotes c @ ''"'') cells) @ [CHR 0x0D, CHR 0x0A])
              (headers_stream # map row_stream bs))))
   \<and> exportToCsv bs =
       (if bs = [] then None
        else Some (''data:text/csv;charset=utf-8,''
          @ concat (map (\<lambda>cells. join '','' (map (\<lambda>c. ''"'' @ doubleQuotes c @ ''"'') cells) @ [CHR 0x0D, CHR 0x0A])
              (headers # map row bs))))\<close>
proof -
  have e: "escapeCsvCell = (\<lambda>c. [CHR 0x22] @ doubleQuotes c @ [CHR 0x22])"
    by (rule ext) (simp add: escapeCsvCell_eq escapeCsvCell_stream_def)
  have es: "escapeCsvCell_stream = (\<lambda>c. [CHR 0x22] @ doubleQuotes c @ [CHR 0x22])"
    by (rule ext) (simp add: escapeCsvCell_stream_def)
  have 1: "escapeCsvCell_stream [CHR ''H'', CHR ''e'', CHR '' '', CHR ''s'', CHR ''a'', CHR ''i'', CHR ''d'', CHR '' '', CHR 0x22, CHR ''h'', CHR ''i'', CHR 0x22, CHR '','', CHR '' '', CHR ''t'', CHR ''h'', CHR ''e'', CHR ''n'', CHR '' '', CHR ''l'', CHR ''e'', CHR ''f'', CHR ''t'']
     = [CHR 0x22, CHR ''H'', CHR ''e'', CHR '' '', CHR ''s'', CHR ''a'', CHR ''i'', CHR ''d'', CHR '' '', CHR 0x22, CHR 0x22, CHR ''h'', CHR ''i'', CHR 0x22, CHR 0x22, CHR '','', CHR '' '', CHR ''t'', CHR ''h'', CHR ''e'', CHR ''n'', CHR '' '', CHR ''l'', CHR ''e'', CHR ''f'', CHR ''t'', CHR 0x22]"
    by (simp add: escapeCsvCell_stream_def doubleQuotes_def)
  have 3: "parseCsvCell (escapeCsvCell_stream cell) = Some cell"
    by (simp add: escapeCsvCell_stream_def unquote_doubleQuotes)
  have 7: "exportToCsv_stream bs =
       (if bs = [] then None
        else Some (''data:text/csv;charset=utf-8,''
          @ concat (map (\<lambda>cells. join '','' (map (\<lambda>c. [CHR 0x22] @ doubleQuotes c @ [CHR 0x22]) cells) @ [CHR 0x0D, CHR 0x0A])
              (headers_stream # map row_stream bs))))"
    by (simp add: exportToCsv_stream_def csvContentOf_def es)
  have 8: "exportToCsv bs =
       (if bs = [] then None
        else Some (''data:text/csv;charset=utf-8,''
          @ concat (map (\<lambda>cells. join '','' (map (\<lambda>c. [CHR 0x22] @ doubleQuotes c @ [CHR 0x22]) cells) @ [CHR 0x0D, CHR 0x0A])
              (headers # map row bs))))"
    by (simp add: exportToCsv_def csvContentOf_def e)
  from 1 3 7 8 show ?thesis
    by (simp add: escapeCsvCell_eq) (simp add: escapeCsvCell_stream_def)
qed

lemma row_columns: "row b = map (columnValue b) fixedColumns"
  by (simp add: row_def fixedColumns_def columnValue_def)

lemma row_stream_columns: "row_stream b = map (columnValue b) streamColumns"
  by (simp add: row_stream_def streamColumns_def columnValue_def)

text \<open>
  Claim C8 (CSV fixed column order), as amended. The export of the geo App and of the
  places App emits the twelve columns in the order Company Name, Contact Name, Address,
  Phone, Email, Website, Description, Status, Date Found/Updated, Email Thread ID, Area
  Searched, Business Type, and each row holds the fields of its record in that order. The
  export of the stream App emits the same columns with Description before Website, each
  row again in the order of its header.
\<close>

theorem csv_column_order_amended:
  "exportToCsv bs =
     (if bs = [] then None
      else Some (csvContentOf escapeCsvCell fixedColumns
                   (map (\<lambda>b. map (columnValue b) fixedColumns) bs)))
   \<and> exportToCsv_stream bs =
     (if bs = [] then None
      else Some (csvContentOf escapeCsvCell_stream streamColumns
                   (map (\<lambda>b. map (columnValue b) streamColumns) bs)))
   \<and> streamColumns = take 5 fixedColumns @ [fixedColumns ! 6, fixedColumns ! 5] @ drop 7 fixedColumns"
proof -
  have h: "headers = fixedColumns" by (simp add: headers_def fixedColumns_def)
  have hs: "headers_stream = streamColumns" by (simp add: headers_stream_def streamColumns_def)
  have r: "map row bs = map (\<lambda>b. map (columnValue b) fixedColumns) bs"
    by (simp add: row_columns)
  have rs: "map row_stream bs = map (\<lambda>b. map (columnValue b) streamColumns) bs"
    by (simp add: row_stream_columns)
  have sw: "streamColumns = take 5 fixedColumns @ [fixedColumns ! 6, fixedColumns ! 5] @ drop 7 fixedColumns"
    by (simp add: streamColumns_def fixedColumns_def)
  show ?thesis
    unfolding exportToCsv_def exportToCsv_stream_def h hs r rs using sw by simp
qed

text \<open>
  Claim C8 as stated fails on the stream App: for the sample record its export has
  Description in the sixth column and Website in the seventh, which is not the export in
  the fixed order.
\<close>

theorem csv_column_order_counterexample:
  \<open>exportToCsv_stream [sampleBusiness] = Some
     (''data:text/csv;charset=utf-8,''
      @ ''"Company Name","Contact Name","Address","Phone","Email","Description","Website","Status","Date Found/Updated","Email Thread ID","Area Searched","Business Type"''
      @ [CHR 0x0D, CHR 0x0A]
      @ ''"Acme Cafe LLC","Ann Lee","1 Main St","555-1234","ann@acme.test","A neighbourhood cafe.","https://acme.test","Discovered","2024-01-01","N/A","Austin, TX","Coffee Shops"''
      @ [CHR 0x0D, CHR 0x0A])
   \<and> exportToCsv_stream [sampleBusiness]
     \<noteq> Some (csvContentOf escapeCsvCell_stream fixedColumns [map (columnValue sampleBusiness) fixedColumns])\<close>
  by (simp add: exportToCsv_stream_def csvContentOf_def headers_stream_def row_stream_def
      escapeCsvCell_stream_def doubleQuotes_def sampleBusiness_def fixedColumns_def columnValue_def)


subsection \<open>Updates by id\<close>

lemma unchangedExcept_map:
  assumes "\<And>b. idB (g b) = idB b"
  shows "unchangedExcept bid prev (map (\<lambda>b. if idB b = bid then g b else b) prev)"
  using assms by (simp add: unchangedExcept_def list_all2_conv_all_nth)

lemma unchangedExcept_trans:
  "unchangedExcept bid a b \<Longrightarrow> unchangedExcept bid b c \<Longrightarrow> unchangedExcept bid a c"
proof -
  assume ab: "unchangedExcept bid a b" and bc: "unchangedExcept bid b c"
  have "list_all2 (\<lambda>x z. idB z = idB x \<and> (idB x = bid \<or> z = x)) a c"
  proof (rule list_all2_trans)
    show "list_all2 (\<lambda>b b'. idB b' = idB b \<and> (idB b = bid \<or> b' = b)) a b"
      using ab by (simp add: unchangedExcept_def)
    show "list_all2 (\<lambda>b b'. idB b' = idB b \<and> (idB b = bid \<or> b' = b)) b c"
      using bc by (simp add: unchangedExcept_def)
  qed auto
  then show ?thesis by (simp add: unchangedExcept_def)
qed

lemma spreadCoords_id [simp]: "idB (spreadCoords coords b) = idB b"
  by (cases coords) auto

lemma unchanged_markFailed: "unchangedExcept bid prev (markFailed msg bid prev)"
  unfolding markFailed_def by (rule unchangedExcept_map) simp

lemma unchanged_markResearching: "unchangedExcept bid prev (markResearching bid prev)"
  unfolding markResearching_def by (rule unchangedExcept_map) simp

lemma unchanged_mergeResearched_stream:
  "unchangedExcept bid prev (mergeResearched_stream bid rd prev)"
  unfolding mergeResearched_stream_def by (rule unchangedExcept_map) (simp add: spreadResearched_def)

lemma unchanged_mergeRetried_stream:
  "unchangedExcept bid prev (mergeRetried_stream bid rd today prev)"
  unfolding mergeRetried_stream_def by (rule unchangedExcept_map) (simp add: spreadResearched_def)

lemma unchanged_mergeResearched_geo:
  "unchangedExcept bid prev (mergeResearched_geo bid rd coords prev)"
  unfolding mergeResearched_geo_def by (rule unchangedExcept_map) (simp add: spreadResearched_def)

lemma unchanged_mergeResearched_places:
  "unchangedExcept bid prev (mergeResearched_places bid rd pd prev)"
  unfolding mergeResearched_places_def by (rule unchangedExcept_map) (simp add: spreadResearched_def)

text \<open>Each operation settles as one of the updaters applied to the store.\<close>

lemma geo_settles:
  "processResearchAndGeocoding_geo w business prev
     = Inr (markFailed ''Research failed.'' (idB business) prev)
   \<or> (\<exists>rd coords. processResearchAndGeocoding_geo w business prev
         = Inr (mergeResearched_geo (idB business) rd coords prev))"
  by (auto simp: processResearchAndGeocoding_geo_def tryResearch_geo_def geocodeAddress_def
      split: sum.splits option.splits list.splits)

lemma places_settles:
  "processResearchAndGeocoding_places w business prev
     = Inr (markFailed ''Research failed.'' (idB business) prev)
   \<or> (\<exists>rd pd. processResearchAndGeocoding_places w business prev
         = Inr (mergeResearched_places (idB business) rd pd prev))"
  by (auto simp: processResearchAndGeocoding_places_def tryResearch_places_def split: sum.splits)

lemma stream_settles:
  "researchAdmitted_stream w business prev
     = Inr (markFailed ''Research failed.'' (idB business) prev)
   \<or> (\<exists>rd. researchAdmitted_stream w business prev
         = Inr (mergeResearched_stream (idB business) rd prev))"
  by (auto simp: researchAdmitted_stream_def split: sum.splits)

lemma find_id: "find (\<lambda>b. idB b = bid) bs = Some b0 \<Longrightarrow> idB b0 = bid"
  by (induction bs) (auto split: if_splits)

lemma geo_unchanged:
  "\<exists>s. processResearchAndGeocoding_geo w business prev = Inr s \<and> unchangedExcept (idB business) prev s"
  using geo_settles [of w business prev] unchanged_markFailed unchanged_mergeResearched_geo by auto

lemma places_unchanged:
  "\<exists>s. processResearchAndGeocoding_places w business prev = Inr s \<and> unchangedExcept (idB business) prev s"
  using places_settles [of w business prev] unchanged_markFailed unchanged_mergeResearched_places by auto

lemma stream_unchanged:
  "\<exists>s. researchAdmitted_stream w business prev = Inr s \<and> unchangedExcept (idB business) prev s"
  using stream_settles [of w business prev] unchanged_markFailed unchanged_mergeResearched_stream by auto

lemma unchangedExcept_refl: "unchangedExcept bid bs bs"
  by (simp add: unchangedExcept_def list_all2_conv_all_nth)

lemma retry_stream_unchanged:
  "\<exists>s. handleRetryResearch_stream w today bid bs = Inr s \<and> unchangedExcept bid bs s"
proof (cases "find (\<lambda>b. idB b = bid) bs")
  case None
  then show ?thesis by (simp add: handleRetryResearch_stream_def unchangedExcept_refl)
next
  case (Some b0)
  show ?thesis
  proof (cases "researchBusiness w (discoveryName b0) (discoveryWebsite b0)")
    case (Inl e)
    with Some show ?thesis
      using unchangedExcept_trans [OF unchanged_markResearching unchanged_markFailed]
      by (simp add: handleRetryResearch_stream_def)
  next
    case (Inr rd)
    with Some show ?thesis
      using unchangedExcept_trans [OF unchanged_markResearching unchanged_mergeRetried_stream]
      by (simp add: handleRetryResearch_stream_def)
  qed
qed

lemma retry_geo_unchanged:
  "\<exists>s. handleRetryResearch_geo w today bid bs = Inr s \<and> unchangedExcept bid bs s"
proof (cases "find (\<lambda>b. idB b = bid) bs")
  case None
  then show ?thesis by (simp add: handleRetryResearch_geo_def unchangedExcept_refl)
next
  case (Some b0)
  then have "idB b0 = bid" by (rule find_id)
  then obtain s where "processResearchAndGeocoding_geo w (b0\<lparr>dateFound := today\<rparr>) (markResearching bid bs) = Inr s"
    and "unchangedExcept bid (markResearching bid bs) s"
    using geo_unchanged [of w "b0\<lparr>dateFound := today\<rparr>" "markResearching bid bs"] by auto
  with Some show ?thesis
    using unchangedExcept_trans [OF unchanged_markResearching]
    by (simp add: handleRetryResearch_geo_def)
qed

lemma unchangedExcept_meaning:
  assumes "unchangedExcept bid prev s"
  shows "length s = length prev" and "map idB s = map idB prev"
    and "\<And>i. i < length prev \<Longrightarrow> idB (prev ! i) \<noteq> bid \<Longrightarrow> s ! i = prev ! i"
    and "\<And>i j. distinct (map idB prev) \<Longrightarrow> i < length prev \<Longrightarrow> j < length prev
          \<Longrightarrow> s ! i \<noteq> prev ! i \<Longrightarrow> s ! j \<noteq> prev ! j \<Longrightarrow> i = j"
proof -
  from assms show len: "length s = length prev"
    by (simp add: unchangedExcept_def list_all2_conv_all_nth)
  from assms show "map idB s = map idB prev"
    by (auto simp: unchangedExcept_def list_all2_conv_all_nth intro: nth_equalityI)
  from assms show f: "\<And>i. i < length prev \<Longrightarrow> idB (prev ! i) \<noteq> bid \<Longrightarrow> s ! i = prev ! i"
    by (auto simp: unchangedExcept_def list_all2_conv_all_nth)
  fix i j
  assume d: "distinct (map idB prev)" and i: "i < length prev" and j: "j < length prev"
    and "s ! i \<noteq> prev ! i" and "s ! j \<noteq> prev ! j"
  with f have "idB (prev ! i) = bid" "idB (prev ! j) = bid" by blast+
  then have "map idB prev ! i = map idB prev ! j" using i j by simp
  with d i j show "i = j" using nth_eq_iff_index_eq [of "map idB prev" i j] by simp
qed

text \<open>
  Claim C10 (merge-by-id frame property). Every updater of an enrichment completion, of an
  enrichment failure and of a retry, and every operation that applies them, leaves the
  store with the same number of records, the same ids in the same order, and every record
  whose id differs from the targeted one exactly as it was; where the ids of the store are
  pairwise distinct, at most one record differs after the update.
\<close>

theorem merge_by_id_frame:
  "(U \<in> {mergeResearched_stream bid rd, mergeRetried_stream bid rd today,
          mergeResearched_geo bid rd coords, mergeResearched_places bid rd pd,
          markFailed msg bid, markResearching bid}
      \<longrightarrow> unchangedExcept bid prev (U prev))
   \<and> (\<exists>s. researchAdmitted_stream w business prev = Inr s \<and> unchangedExcept (idB business) prev s)
   \<and> (\<exists>s. processResearchAndGeocoding_geo w business prev = Inr s \<and> unchangedExcept (idB business) prev s)
   \<and> (\<exists>s. processResearchAndGeocoding_places w business prev = Inr s \<and> unchangedExcept (idB business) prev s)
   \<and> (\<exists>s. handleRetryResearch_stream w today bid prev = Inr s \<and> unchangedExcept bid prev s)
   \<and> (\<exists>s. handleRetryResearch_geo w today bid prev = Inr s \<and> unchangedExcept bid prev s)
   \<and> (unchangedExcept bid prev s' \<longrightarrow>
        length s' = length prev \<and> map idB s' = map idB prev
        \<and> (\<forall>i<length prev. idB (prev ! i) \<noteq> bid \<longrightarrow> s' ! i = prev ! i)
        \<and> (distinct (map idB prev) \<longrightarrow>
             (\<forall>i<length prev. \<forall>j<length prev. s' ! i \<noteq> prev ! i \<longrightarrow> s' ! j \<noteq> prev ! j \<longrightarrow> i = j)))"
proof -
  have 1: "U \<in> {mergeResearched_stream bid rd, mergeRetried_stream bid rd today,
          mergeResearched_geo bid rd coords, mergeResearched_places bid rd pd,
          markFailed msg bid, markResearching bid}
      \<longrightarrow> unchangedExcept bid prev (U prev)"
    using unchanged_mergeResearched_stream unchanged_mergeRetried_stream
      unchanged_mergeResearched_geo unchanged_mergeResearched_places unchanged_markFailed
      unchanged_markResearching by auto
  have 7: "unchangedExcept bid prev s' \<longrightarrow>
        length s' = length prev \<and> map idB s' = map idB prev
        \<and> (\<forall>i<length prev. idB (prev ! i) \<noteq> bid \<longrightarrow> s' ! i = prev ! i)
        \<and> (distinct (map idB prev) \<longrightarrow>
             (\<forall>i<length prev. \<forall>j<length prev. s' ! i \<noteq> prev ! i \<longrightarrow> s' ! j \<noteq> prev ! j \<longrightarrow> i = j))"
    using unchangedExcept_meaning [of bid prev s'] by blast
  show ?thesis
    by (intro conjI)
      (rule 1 7 stream_unchanged geo_unchanged places_unchanged retry_stream_unchanged
        retry_geo_unchanged)+
qed


text \<open>The failure updater applied to a store of two records changes the targeted one only.\<close>

theorem merge_by_id_frame_witness:
  "markFailed ''Research failed.'' (idB sampleBusiness) [otherBusiness, sampleBusiness]
     = [otherBusiness, sampleBusiness\<lparr>description := ''Research failed.''\<rparr>]
   \<and> unchangedExcept (idB sampleBusiness) [otherBusiness, sampleBusiness]
        [otherBusiness, sampleBusiness\<lparr>description := ''Research failed.''\<rparr>]"
proof -
  have m: "markFailed ''Research failed.'' (idB sampleBusiness) [otherBusiness, sampleBusiness]
     = [otherBusiness, sampleBusiness\<lparr>description := ''Research failed.''\<rparr>]"
    by (simp add: markFailed_def sampleBusiness_def otherBusiness_def)
  have "markFailed ''Research failed.'' (idB sampleBusiness)
      \<in> {mergeResearched_stream (idB sampleBusiness) notFoundData,
          mergeRetried_stream (idB sampleBusiness) notFoundData [],
          mergeResearched_geo (idB sampleBusiness) notFoundData None,
          mergeResearched_places (idB sampleBusiness) notFoundData samplePlaceDetails,
          markFailed ''Research failed.'' (idB sampleBusiness),
          markResearching (idB sampleBusiness)}"
    by simp
  with merge_by_id_frame [where U = "markFailed ''Research failed.'' (idB sampleBusiness)"
      and bid = "idB sampleBusiness" and msg = "''Research failed.''"
      and prev = "[otherBusiness, sampleBusiness]" and rd = notFoundData and today = "[]"
      and coords = None and pd = samplePlaceDetails]
  have "unchangedExcept (idB sampleBusiness) [otherBusiness, sampleBusiness]
      (markFailed ''Research failed.'' (idB sampleBusiness) [otherBusiness, sampleBusiness])"
    by blast
  with m show ?thesis by simp
qed

subsection \<open>Enrichment failures\<close>

lemma markFailed_nth:
  "i < length prev \<Longrightarrow> markFailed msg bid prev ! i
     = (if idB (prev ! i) = bid then (prev ! i)\<lparr>description := msg, isResearching := False\<rparr>
        else prev ! i)"
  by (simp add: markFailed_def)

lemma markResearching_nth:
  "i < length prev \<Longrightarrow> markResearching bid prev ! i
     = (if idB (prev ! i) = bid then (prev ! i)\<lparr>isResearching := True\<rparr> else prev ! i)"
  by (simp add: markResearching_def)

lemma length_markFailed [simp]: "length (markFailed msg bid prev) = length prev"
  by (simp add: markFailed_def)

lemma length_markResearching [simp]: "length (markResearching bid prev) = length prev"
  by (simp add: markResearching_def)

lemma researchBusiness_fails:
  "generateContent w nm ws = Inl e \<Longrightarrow> \<exists>e'. researchBusiness w nm ws = Inl e'"
  by (simp add: researchBusiness_def)

lemma geo_fails:
  "generateContent w (discoveryName business) (discoveryWebsite business) = Inl e \<Longrightarrow>
   processResearchAndGeocoding_geo w business prev
     = Inr (markFailed ''Research failed.'' (idB business) prev)"
  by (simp add: processResearchAndGeocoding_geo_def tryResearch_geo_def researchBusiness_def)

lemma stream_fails:
  "generateContent w (discoveryName business) (discoveryWebsite business) = Inl e \<Longrightarrow>
   researchAdmitted_stream w business prev
     = Inr (markFailed ''Research failed.'' (idB business) prev)"
  by (simp add: researchAdmitted_stream_def researchBusiness_def)

lemma places_fails:
  "generateContent w (discoveryName business) (discoveryWebsite business) = Inl e
     \<or> getPlaceDetails w (idB business) = Inl e' \<Longrightarrow>
   processResearchAndGeocoding_places w business prev
     = Inr (markFailed ''Research failed.'' (idB business) prev)"
  by (auto simp: processResearchAndGeocoding_places_def tryResearch_places_def
      researchBusiness_def split: sum.splits)

lemma retry_stream_fails:
  "find (\<lambda>b. idB b = bid) bs = Some b0 \<Longrightarrow>
   generateContent w (discoveryName b0) (discoveryWebsite b0) = Inl e \<Longrightarrow>
   handleRetryResearch_stream w today bid bs
     = Inr (markFailed ''Research failed again.'' bid (markResearching bid bs))"
  by (simp add: handleRetryResearch_stream_def researchBusiness_def)

lemma retry_geo_fails:
  "find (\<lambda>b. idB b = bid) bs = Some b0 \<Longrightarrow>
   generateContent w (discoveryName b0) (discoveryWebsite b0) = Inl e \<Longrightarrow>
   handleRetryResearch_geo w today bid bs
     = Inr (markFailed ''Research failed.'' bid (markResearching bid bs))"
  by (frule find_id) (simp add: handleRetryResearch_geo_def geo_fails)

lemma failed_after_retry_nth:
  "i < length bs \<Longrightarrow> idB (bs ! i) = bid \<Longrightarrow>
   markFailed msg bid (markResearching bid bs) ! i
     = (bs ! i)\<lparr>description := msg, isResearching := False\<rparr>"
  by (simp add: markFailed_nth markResearching_nth)

text \<open>
  Claim C4 (enrichment failure containment). When the research call of a candidate fails,
  each enrichment operation resolves with a store in which every record carrying the
  candidate's id is no longer researching and has the description \<open>Research failed.\<close>
  (\<open>Research failed again.\<close> for the retry of the stream App); and no enrichment
  operation ever rejects, whatever the world does.
\<close>

theorem enrichment_failure_contained:
  assumes "generateContent w (discoveryName business) (discoveryWebsite business) = Inl e"
    and "i < length prev" and "idB (prev ! i) = idB business"
  shows "(\<exists>s. processResearchAndGeocoding_geo w business prev = Inr s \<and> length s = length prev
            \<and> description (s ! i) = ''Research failed.'' \<and> \<not> isResearching (s ! i))
    \<and> (\<exists>s. researchAdmitted_stream w business prev = Inr s \<and> length s = length prev
            \<and> description (s ! i) = ''Research failed.'' \<and> \<not> isResearching (s ! i))
    \<and> (\<exists>s. processResearchAndGeocoding_places w business prev = Inr s \<and> length s = length prev
            \<and> description (s ! i) = ''Research failed.'' \<and> \<not> isResearching (s ! i))
    \<and> (find (\<lambda>b. idB b = idB business) prev = Some business \<longrightarrow>
          (\<exists>s. handleRetryResearch_stream w today (idB business) prev = Inr s
              \<and> length s = length prev
              \<and> description (s ! i) = ''Research failed again.'' \<and> \<not> isResearching (s ! i))
        \<and> (\<exists>s. handleRetryResearch_geo w today (idB business) prev = Inr s
              \<and> length s = length prev
              \<and> description (s ! i) = ''Research failed.'' \<and> \<not> isResearching (s ! i)))
    \<and> (\<exists>s. processResearchAndGeocoding_geo w' business' prev' = Inr s)
    \<and> (\<exists>s. researchAdmitted_stream w' business' prev' = Inr s)
    \<and> (\<exists>s. processResearchAndGeocoding_places w' business' prev' = Inr s)
    \<and> (\<exists>s. handleRetryResearch_stream w' today' bid' prev' = Inr s)
    \<and> (\<exists>s. handleRetryResearch_geo w' today' bid' prev' = Inr s)"
proof -
  have f: "description (markFailed msg (idB business) prev ! i) = msg
      \<and> \<not> isResearching (markFailed msg (idB business) prev ! i)" for msg
    using assms(2,3) by (simp add: markFailed_nth)
  have 1: "\<exists>s. processResearchAndGeocoding_geo w business prev = Inr s \<and> length s = length prev
            \<and> description (s ! i) = ''Research failed.'' \<and> \<not> isResearching (s ! i)"
    using geo_fails [OF assms(1)] f by simp
  have 2: "\<exists>s. researchAdmitted_stream w business prev = Inr s \<and> length s = length prev
            \<and> description (s ! i) = ''Research failed.'' \<and> \<not> isResearching (s ! i)"
    using stream_fails [OF assms(1)] f by simp
  have 3: "\<exists>s. processResearchAndGeocoding_places w business prev = Inr s \<and> length s = length prev
            \<and> description (s ! i) = ''Research failed.'' \<and> \<not> isResearching (s ! i)"
    using places_fails [of w business e] assms(1) f by simp
  have 4: "find (\<lambda>b. idB b = idB business) prev = Some business \<longrightarrow>
          (\<exists>s. handleRetryResearch_stream w today (idB business) prev = Inr s
              \<and> length s = length prev
              \<and> description (s ! i) = ''Research failed again.'' \<and> \<not> isResearching (s ! i))
        \<and> (\<exists>s. handleRetryResearch_geo w today (idB business) prev = Inr s
              \<and> length s = length prev
              \<and> description (s ! i) = ''Research failed.'' \<and> \<not> isResearching (s ! i))"
    using retry_stream_fails [OF _ assms(1)] retry_geo_fails [OF _ assms(1)]
      failed_after_retry_nth [OF assms(2,3)]
    by simp
  have 5: "\<exists>s. processResearchAndGeocoding_geo w' business' prev' = Inr s"
    using geo_unchanged by blast
  have 6: "\<exists>s. researchAdmitted_stream w' business' prev' = Inr s"
    using stream_unchanged by blast
  have 7: "\<exists>s. processResearchAndGeocoding_places w' business' prev' = Inr s"
    using places_unchanged by blast
  have 8: "\<exists>s. handleRetryResearch_stream w' today' bid' prev' = Inr s"
    using retry_stream_unchanged by blast
  have 9: "\<exists>s. handleRetryResearch_geo w' today' bid' prev' = Inr s"
    using retry_geo_unchanged by blast
  show ?thesis by (intro conjI) (rule 1 2 3 4 5 6 7 8 9)+
qed

text \<open>A research that times out, on a store of two records.\<close>

theorem enrichment_failure_contained_witness:
  "processResearchAndGeocoding_geo (sampleWorld \<lparr>chunks = [], ending = EndOfStream\<rparr> (Inl (Error ''timeout'')))
      sampleBusiness [otherBusiness, sampleBusiness\<lparr>isResearching := True\<rparr>]
     = Inr [otherBusiness, sampleBusiness\<lparr>description := ''Research failed.''\<rparr>]
   \<and> (\<exists>s. processResearchAndGeocoding_geo (sampleWorld \<lparr>chunks = [], ending = EndOfStream\<rparr> (Inl (Error ''timeout'')))
            sampleBusiness [otherBusiness, sampleBusiness\<lparr>isResearching := True\<rparr>] = Inr s
         \<and> length s = 2 \<and> description (s ! 1) = ''Research failed.'' \<and> \<not> isResearching (s ! 1))"
proof -
  let ?w = "sampleWorld \<lparr>chunks = [], ending = EndOfStream\<rparr> (Inl (Error ''timeout''))"
  let ?prev = "[otherBusiness, sampleBusiness\<lparr>isResearching := True\<rparr>]"
  have a: "generateContent ?w (discoveryName sampleBusiness) (discoveryWebsite sampleBusiness)
      = Inl (Error ''timeout'')"
    by (simp add: sampleWorld_def)
  have b: "1 < length ?prev" by simp
  have c: "idB (?prev ! 1) = idB sampleBusiness" by simp
  have d: "processResearchAndGeocoding_geo ?w sampleBusiness ?prev
     = Inr [otherBusiness, sampleBusiness\<lparr>description := ''Research failed.''\<rparr>]"
    by (simp add: processResearchAndGeocoding_geo_def tryResearch_geo_def researchBusiness_def
        sampleWorld_def markFailed_def sampleBusiness_def otherBusiness_def)
  from enrichment_failure_contained [OF a b c, THEN conjunct1] d show ?thesis by simp
qed


text \<open>
  Claim C6 (retry does not blank fields), as amended. When the retry of a candidate's
  enrichment fails, the candidate's record is the record before the retry with the
  description replaced by the failure message and the researching flag off: company name,
  contact name, address, phone and email keep their values, and so does every other field
  but the description. While the retry runs, the record differs from the one before only
  in the researching flag.
\<close>

theorem retry_failure_keeps_fields:
  assumes "find (\<lambda>b. idB b = bid) bs = Some b0"
    and "generateContent w (discoveryName b0) (discoveryWebsite b0) = Inl e"
    and "i < length bs" and "idB (bs ! i) = bid"
  shows "(\<exists>s. handleRetryResearch_stream w today bid bs = Inr s
            \<and> s ! i = (bs ! i)\<lparr>description := ''Research failed again.'', isResearching := False\<rparr>
            \<and> phone (s ! i) = phone (bs ! i) \<and> email (s ! i) = email (bs ! i)
            \<and> address (s ! i) = address (bs ! i) \<and> companyName (s ! i) = companyName (bs ! i)
            \<and> contactName (s ! i) = contactName (bs ! i) \<and> \<not> isResearching (s ! i))
     \<and> (\<exists>s. handleRetryResearch_geo w today bid bs = Inr s
            \<and> s ! i = (bs ! i)\<lparr>description := ''Research failed.'', isResearching := False\<rparr>
            \<and> phone (s ! i) = phone (bs ! i) \<and> email (s ! i) = email (bs ! i)
            \<and> address (s ! i) = address (bs ! i) \<and> companyName (s ! i) = companyName (bs ! i)
            \<and> contactName (s ! i) = contactName (bs ! i) \<and> \<not> isResearching (s ! i))
     \<and> markResearching bid bs ! i = (bs ! i)\<lparr>isResearching := True\<rparr>"
proof -
  have n: "markFailed msg bid (markResearching bid bs) ! i
      = (bs ! i)\<lparr>description := msg, isResearching := False\<rparr>" for msg
    using assms(3,4) by (rule failed_after_retry_nth)
  have 1: "\<exists>s. handleRetryResearch_stream w today bid bs = Inr s
            \<and> s ! i = (bs ! i)\<lparr>description := ''Research failed again.'', isResearching := False\<rparr>
            \<and> phone (s ! i) = phone (bs ! i) \<and> email (s ! i) = email (bs ! i)
            \<and> address (s ! i) = address (bs ! i) \<and> companyName (s ! i) = companyName (bs ! i)
            \<and> contactName (s ! i) = contactName (bs ! i) \<and> \<not> isResearching (s ! i)"
    using retry_stream_fails [OF assms(1,2)] n by simp
  have 2: "\<exists>s. handleRetryResearch_geo w today bid bs = Inr s
            \<and> s ! i = (bs ! i)\<lparr>description := ''Research failed.'', isResearching := False\<rparr>
            \<and> phone (s ! i) = phone (bs ! i) \<and> email (s ! i) = email (bs ! i)
            \<and> address (s ! i) = address (bs ! i) \<and> companyName (s ! i) = companyName (bs ! i)
            \<and> contactName (s ! i) = contactName (bs ! i) \<and> \<not> isResearching (s ! i)"
    using retry_geo_fails [OF assms(1,2)] n by simp
  have 3: "markResearching bid bs ! i = (bs ! i)\<lparr>isResearching := True\<rparr>"
    using assms(3,4) by (simp add: markResearching_nth)
  show ?thesis by (intro conjI) (rule 1 2 3)+
qed

text \<open>The phone \<open>555-1234\<close> survives a failed retry.\<close>

theorem retry_failure_keeps_fields_witness:
  "\<exists>s. handleRetryResearch_stream
          (sampleWorld \<lparr>chunks = [], ending = EndOfStream\<rparr> (Inl (Error ''timeout'')))
          ''2024-02-02'' (idB sampleBusiness) [otherBusiness, sampleBusiness] = Inr s
       \<and> phone (s ! 1) = ''555-1234'' \<and> \<not> isResearching (s ! 1)"
proof -
  let ?w = "sampleWorld \<lparr>chunks = [], ending = EndOfStream\<rparr> (Inl (Error ''timeout''))"
  let ?bs = "[otherBusiness, sampleBusiness]"
  have a: "find (\<lambda>b. idB b = idB sampleBusiness) ?bs = Some sampleBusiness"
    by (simp add: sampleBusiness_def otherBusiness_def)
  have b: "generateContent ?w (discoveryName sampleBusiness) (discoveryWebsite sampleBusiness)
      = Inl (Error ''timeout'')"
    by (simp add: sampleWorld_def)
  have c: "1 < length ?bs" by simp
  have d: "idB (?bs ! 1) = idB sampleBusiness" by simp
  have p: "phone (?bs ! 1) = ''555-1234''" by (simp add: sampleBusiness_def)
  from retry_failure_keeps_fields [OF a b c d, THEN conjunct1, of "''2024-02-02''"] p
  show ?thesis by auto
qed

text \<open>
  Claim C6 as stated fails for the description, which is an enriched field: a failed
  retry replaces \<open>A neighbourhood cafe.\<close> by the failure message.
\<close>

theorem retry_blanks_description_counterexample:
  "handleRetryResearch_stream
      (sampleWorld \<lparr>chunks = [], ending = EndOfStream\<rparr> (Inl (Error ''timeout'')))
      ''2024-02-02'' (idB sampleBusiness) [sampleBusiness]
     = Inr [sampleBusiness\<lparr>description := ''Research failed again.''\<rparr>]
   \<and> handleRetryResearch_geo
      (sampleWorld \<lparr>chunks = [], ending = EndOfStream\<rparr> (Inl (Error ''timeout'')))
      ''2024-02-02'' (idB sampleBusiness) [sampleBusiness]
     = Inr [sampleBusiness\<lparr>description := ''Research failed.''\<rparr>]
   \<and> description sampleBusiness = ''A neighbourhood cafe.''
   \<and> phone sampleBusiness = ''555-1234''"
  by (simp add: handleRetryResearch_stream_def handleRetryResearch_geo_def
      processResearchAndGeocoding_geo_def tryResearch_geo_def researchBusiness_def
      sampleWorld_def markFailed_def markResearching_def sampleBusiness_def)



subsection \<open>Enrichment completions\<close>





lemma spreadCoords_fields:
  "companyName (spreadCoords coords b) = companyName b"
  "contactName (spreadCoords coords b) = contactName b"
  "address (spreadCoords coords b) = address b"
  "phone (spreadCoords coords b) = phone b"
  "email (spreadCoords coords b) = email b"
  "description (spreadCoords coords b) = description b"
  "discoveryName (spreadCoords coords b) = discoveryName b"
  "discoveryWebsite (spreadCoords coords b) = discoveryWebsite b"
  "status (spreadCoords coords b) = status b"
  "dateFound (spreadCoords coords b) = dateFound b"
  by (cases coords; auto)+












subsection \<open>Deduplication\<close>

lemma digits_are_digits: "list_all isDigitChar (digits n)"
proof (induction n rule: digits.induct)
  case (1 n)
  show ?case
  proof (cases "n < 10")
    case True
    then show ?thesis by (subst digits.simps) (simp add: isDigitChar_def)
  next
    case False
    have "n mod 10 < 10" by simp
    then have "isDigitChar (char_of (48 + n mod 10))"
      unfolding isDigitChar_def by (simp add: mod_less)
    with False "1.IH" show ?thesis by (subst digits.simps) simp
  qed
qed

lemma dropWhile_digits: "dropWhile isDigitChar (digits n @ CHR ''-'' # ws) = CHR ''-'' # ws"
proof -
  have "\<And>x. x \<in> set (digits n) \<Longrightarrow> isDigitChar x"
    using digits_are_digits [of n] by (simp add: list_all_iff)
  then have "dropWhile isDigitChar (digits n @ CHR ''-'' # ws) = dropWhile isDigitChar (CHR ''-'' # ws)"
    by (rule dropWhile_append2)
  then show ?thesis by (simp add: isDigitChar_def)
qed

lemma newBusiness_matches: "idMatchesWebsite (newBusinessOf reading location bType d)"
  using dropWhile_digits [of "fst reading" "website d"]
  by (simp add: idMatchesWebsite_def newBusinessOf_def)

lemma ids_distinct:
  assumes "distinct (websites bs)" and "list_all idMatchesWebsite bs"
  shows "distinct (map idB bs)"
proof -
  have "websites bs = map (\<lambda>i. tl (dropWhile isDigitChar i)) (map idB bs)"
    using assms(2) by (simp add: websites_def list_all_iff idMatchesWebsite_def)
  with assms(1) show ?thesis by (metis distinct_map)
qed

lemma onDiscovery_skip:
  "website d = [] \<or> website d \<in> set (websites (businesses st))
     \<or> website d \<in> discoveredWebsitesThisRun st \<Longrightarrow>
   onDiscovery w location bType d st = st"
  by (auto simp: onDiscovery_def list_ex_iff websites_def)

lemma onDiscovery_admit:
  assumes "website d \<noteq> []" and "website d \<notin> set (websites (businesses st))"
    and "website d \<notin> discoveredWebsitesThisRun st"
  shows "businesses (onDiscovery w location bType d st)
       = businesses st @ [newBusinessOf (clock w (tick st)) location bType d]"
    and "discoveredWebsitesThisRun (onDiscovery w location bType d st)
       = insert (website d) (discoveredWebsitesThisRun st)"
proof -
  have "\<not> list_ex (\<lambda>b. discoveryWebsite b = website d) (businesses st)"
    using assms(2) by (force simp: list_ex_iff websites_def)
  with assms(1,3) show "businesses (onDiscovery w location bType d st)
       = businesses st @ [newBusinessOf (clock w (tick st)) location bType d]"
    and "discoveredWebsitesThisRun (onDiscovery w location bType d st)
       = insert (website d) (discoveredWebsitesThisRun st)"
    by (simp_all add: onDiscovery_def Let_def)
qed

lemma website_newBusiness [simp]:
  "discoveryWebsite (newBusinessOf reading location bType d) = website d"
  by (simp add: newBusinessOf_def)

lemma onDiscovery_inv:
  assumes "runInv st"
  shows "runInv (onDiscovery w location bType d st)"
    and "set (websites (businesses (onDiscovery w location bType d st)))
       = set (websites (businesses st)) \<union> (if website d = [] then {} else {website d})"
proof -
  consider (skip) "website d = [] \<or> website d \<in> set (websites (businesses st))
     \<or> website d \<in> discoveredWebsitesThisRun st"
    | (admit) "website d \<noteq> []" "website d \<notin> set (websites (businesses st))"
      "website d \<notin> discoveredWebsitesThisRun st"
    by blast
  then have "runInv (onDiscovery w location bType d st)
    \<and> set (websites (businesses (onDiscovery w location bType d st)))
       = set (websites (businesses st)) \<union> (if website d = [] then {} else {website d})"
  proof cases
    case skip
    then have "onDiscovery w location bType d st = st" by (rule onDiscovery_skip)
    moreover from skip assms have "website d = [] \<or> website d \<in> set (websites (businesses st))"
      by (auto simp: runInv_def)
    ultimately show ?thesis using assms by auto
  next
    case admit
    note a = onDiscovery_admit [OF admit, of w location bType]
    from assms admit show ?thesis
      unfolding runInv_def a by (auto simp: websites_def newBusiness_matches)
  qed
  then show "runInv (onDiscovery w location bType d st)"
    and "set (websites (businesses (onDiscovery w location bType d st)))
       = set (websites (businesses st)) \<union> (if website d = [] then {} else {website d})"
    by simp_all
qed

lemma fold_onDiscovery_inv:
  "runInv st \<Longrightarrow>
   runInv (fold (onDiscovery w location bType) ds st)
   \<and> set (websites (businesses (fold (onDiscovery w location bType) ds st)))
       = set (websites (businesses st)) \<union> {x \<in> website ` set ds. x \<noteq> []}"
proof (induction ds arbitrary: st)
  case Nil
  then show ?case by simp
next
  case (Cons d ds)
  note i = onDiscovery_inv [OF Cons.prems, of w location bType d]
  from Cons.IH [OF i(1)] i(2) show ?case by auto
qed

text \<open>An invariant of the callback's state is an invariant of the parser.\<close>

lemma drain_invariant:
  "(\<And>d t. P t \<Longrightarrow> P (f d t)) \<Longrightarrow> P s \<Longrightarrow> P (fst (drain f b s))"
proof (induction f b s rule: drain.induct)
  case (1 f buffer s)
  show ?case
  proof (cases "indexOf CHR 0x0A buffer")
    case None
    with "1.prems" show ?thesis by (simp add: drain.simps)
  next
    case (Some i)
    have "P (case parseLine (trim (take i buffer)) of None \<Rightarrow> s | Some d \<Rightarrow> f d s)"
      using "1.prems" by (auto split: option.splits)
    with Some "1.IH" [OF Some refl refl "1.prems"(1)] show ?thesis
      by (simp add: drain.simps [of f buffer] Let_def)
  qed
qed

lemma consume_invariant:
  assumes "\<And>d t. P t \<Longrightarrow> P (f d t)"
  shows "P s \<Longrightarrow> P (fst (consume f cs b s))"
proof (induction cs arbitrary: b s)
  case Nil
  then show ?case by simp
next
  case (Cons c cs)
  obtain s' b' where d: "drain f (b @ c) s = (s', b')" by (cases "drain f (b @ c) s")
  have "P (fst (drain f (b @ c) s))" using assms Cons.prems by (rule drain_invariant)
  with d have "P s'" by simp
  then have "P (fst (consume f cs b' s'))" by (rule Cons.IH)
  with d show ?case by simp
qed

lemma flush_invariant:
  assumes "\<And>d t. P t \<Longrightarrow> P (f d t)"
  shows "P s \<Longrightarrow> P (flush f b s)"
  using assms by (simp add: flush_def split: option.splits)

lemma findBusinessesStream_invariant:
  assumes "\<And>d t. P t \<Longrightarrow> P (f d t)" and "P s"
  shows "P (fst (findBusinessesStream rs f s))"
proof -
  obtain s' b' where c: "consume f (chunks rs) [] s = (s', b')"
    by (cases "consume f (chunks rs) [] s")
  have "P (fst (consume f (chunks rs) [] s))" using assms by (rule consume_invariant)
  with c have "P s'" by simp
  then have "P (flush f b' s')" using assms(1) by (rule flush_invariant [rotated])
  with c \<open>P s'\<close> show ?thesis
    by (simp add: findBusinessesStream_def split: stream_end.splits)
qed


lemma businesses_handleSearch_geo:
  "businesses (handleSearch_geo w location bType numResults st)
     = businesses (fst (findBusinessesStreamFor w location bType numResults
          (onDiscovery w location bType) (beginSearch st)))"
  by (simp add: handleSearch_geo_def split: prod.splits sum.splits)

lemma runInv_beginSearch:
  "distinct (websites (businesses st)) \<Longrightarrow> list_all idMatchesWebsite (businesses st) \<Longrightarrow>
   runInv (beginSearch st)"
  by (simp add: runInv_def beginSearch_def)

lemma addNewBusinesses_ids:
  assumes "distinct (map idB prev)" and "distinct (map idB newBusinesses)"
  shows "distinct (map idB (addNewBusinesses newBusinesses prev))"
    and "set (map idB (addNewBusinesses newBusinesses prev))
       = set (map idB prev) \<union> set (map idB newBusinesses)"
proof -
  have d: "set (map idB prev) \<inter> set (map idB (filter (\<lambda>b. idB b \<notin> set (map idB prev)) newBusinesses)) = {}"
    by (auto simp: image_iff)
  show "distinct (map idB (addNewBusinesses newBusinesses prev))"
    using assms d by (simp add: addNewBusinesses_def distinct_map_filter del: set_map)
  show "set (map idB (addNewBusinesses newBusinesses prev))
       = set (map idB prev) \<union> set (map idB newBusinesses)"
    by (auto simp: addNewBusinesses_def)
qed

text \<open>
  Claim C2 (dedupe idempotence), as amended. In streaming discovery the key is the
  website alone. From a store that satisfies the invariant, after any sequence of
  discovery results the websites of the store are pairwise distinct, its ids are pairwise
  distinct, and its websites are those it had together with the non-empty websites of the
  sequence: one candidate for each, in whatever order the results arrive. The same holds
  for the store that \<open>handleSearch\<close> leaves, whatever the stream delivers. In batch
  discovery the key is the place id: for a store and a batch that each hold no id twice,
  the ids after the batch are pairwise distinct and are those of the store and the batch.
  How the stream cuts its text into chunks changes nothing of what the parser does.
\<close>

theorem dedupe_by_website_and_id:
  assumes "distinct (websites (businesses st))" and "list_all idMatchesWebsite (businesses st)"
  shows "distinct (websites (businesses (fold (onDiscovery w location bType) ds (beginSearch st))))
    \<and> distinct (map idB (businesses (fold (onDiscovery w location bType) ds (beginSearch st))))
    \<and> set (websites (businesses (fold (onDiscovery w location bType) ds (beginSearch st))))
        = set (websites (businesses st)) \<union> {x \<in> website ` set ds. x \<noteq> []}
    \<and> (set ds' = set ds \<longrightarrow>
          set (websites (businesses (fold (onDiscovery w location bType) ds' (beginSearch st))))
        = set (websites (businesses (fold (onDiscovery w location bType) ds (beginSearch st)))))
    \<and> distinct (websites (businesses (handleSearch_geo w location bType numResults st)))
    \<and> distinct (map idB (businesses (handleSearch_geo w location bType numResults st)))
    \<and> (distinct (map idB prev) \<and> distinct (map idB newBusinesses) \<longrightarrow>
          distinct (map idB (addNewBusinesses newBusinesses prev))
        \<and> set (map idB (addNewBusinesses newBusinesses prev))
            = set (map idB prev) \<union> set (map idB newBusinesses))
    \<and> (concat (chunks rs) = concat (chunks rs') \<and> ending rs = ending rs' \<longrightarrow>
          findBusinessesStream rs f s = findBusinessesStream rs' f s)"
proof -
  have r: "runInv (beginSearch st)" using assms by (rule runInv_beginSearch)
  have b: "businesses (beginSearch st) = businesses st" by (simp add: beginSearch_def)
  note f = fold_onDiscovery_inv [OF r, of w location bType]
  have 1: "distinct (websites (businesses (fold (onDiscovery w location bType) ds (beginSearch st))))"
    using f [of ds] by (simp add: runInv_def)
  have 2: "distinct (map idB (businesses (fold (onDiscovery w location bType) ds (beginSearch st))))"
    using f [of ds] by (simp add: runInv_def ids_distinct)
  have 3: "set (websites (businesses (fold (onDiscovery w location bType) ds (beginSearch st))))
        = set (websites (businesses st)) \<union> {x \<in> website ` set ds. x \<noteq> []}"
    using f [of ds] b by simp
  have 4: "set ds' = set ds \<longrightarrow>
          set (websites (businesses (fold (onDiscovery w location bType) ds' (beginSearch st))))
        = set (websites (businesses (fold (onDiscovery w location bType) ds (beginSearch st))))"
    using f [of ds] f [of ds'] by simp
  have "runInv (fst (findBusinessesStream rs (onDiscovery w location bType) (beginSearch st)))" for rs
    using onDiscovery_inv(1) r by (rule findBusinessesStream_invariant)
  then have h: "runInv (fst (findBusinessesStreamFor w location bType numResults
          (onDiscovery w location bType) (beginSearch st)))"
    by (simp add: findBusinessesStreamFor_def)
  have 5: "distinct (websites (businesses (handleSearch_geo w location bType numResults st)))"
    using h by (simp add: businesses_handleSearch_geo runInv_def)
  have 6: "distinct (map idB (businesses (handleSearch_geo w location bType numResults st)))"
    using h by (simp add: businesses_handleSearch_geo runInv_def ids_distinct)
  have 7: "distinct (map idB prev) \<and> distinct (map idB newBusinesses) \<longrightarrow>
          distinct (map idB (addNewBusinesses newBusinesses prev))
        \<and> set (map idB (addNewBusinesses newBusinesses prev))
            = set (map idB prev) \<union> set (map idB newBusinesses)"
    using addNewBusinesses_ids [of prev newBusinesses] by blast
  have 8: "concat (chunks rs) = concat (chunks rs') \<and> ending rs = ending rs' \<longrightarrow>
          findBusinessesStream rs f s = findBusinessesStream rs' f s"
    using findBusinessesStream_chunking [of rs rs' f s] by blast
  show ?thesis by (intro conjI) (rule 1 2 3 4 5 6 7 8)+
qed

text \<open>Three results for two websites, from the empty store.\<close>

theorem dedupe_by_website_and_id_witness:
  "distinct (map idB (businesses (fold
       (onDiscovery (sampleWorld \<lparr>chunks = [], ending = EndOfStream\<rparr> (Inr notFoundData))
          ''Austin, TX'' ''Coffee Shops'')
       [\<lparr>name = ''Acme Cafe'', website = ''https://acme.test''\<rparr>,
        \<lparr>name = ''Beta Bar'', website = ''https://beta.test''\<rparr>,
        \<lparr>name = ''Acme Cafe'', website = ''https://acme.test''\<rparr>] (beginSearch emptyApp))))
   \<and> set (websites (businesses (fold
       (onDiscovery (sampleWorld \<lparr>chunks = [], ending = EndOfStream\<rparr> (Inr notFoundData))
          ''Austin, TX'' ''Coffee Shops'')
       [\<lparr>name = ''Acme Cafe'', website = ''https://acme.test''\<rparr>,
        \<lparr>name = ''Beta Bar'', website = ''https://beta.test''\<rparr>,
        \<lparr>name = ''Acme Cafe'', website = ''https://acme.test''\<rparr>] (beginSearch emptyApp))))
     = {''https://acme.test'', ''https://beta.test''}"
proof -
  have a: "distinct (websites (businesses emptyApp))" by (simp add: emptyApp_def websites_def)
  have b: "list_all idMatchesWebsite (businesses emptyApp)" by (simp add: emptyApp_def)
  have e: "businesses emptyApp = []" by (simp add: emptyApp_def)
  note t = dedupe_by_website_and_id [OF a b,
      of "sampleWorld \<lparr>chunks = [], ending = EndOfStream\<rparr> (Inr notFoundData)"
         "''Austin, TX''" "''Coffee Shops''"
         "[\<lparr>name = ''Acme Cafe'', website = ''https://acme.test''\<rparr>,
           \<lparr>name = ''Beta Bar'', website = ''https://beta.test''\<rparr>,
           \<lparr>name = ''Acme Cafe'', website = ''https://acme.test''\<rparr>]"]
  from t [THEN conjunct2, THEN conjunct1] t [THEN conjunct2, THEN conjunct2, THEN conjunct1]
  show ?thesis by (auto simp: e websites_def)
qed

text \<open>
  Claim C2 as stated fails. Two results with different names and one website are two
  name and website pairs, and the store holds one candidate for them, the first. A batch
  that holds one id twice puts two records with that id into the store.
\<close>

theorem dedupe_key_counterexample:
  "map discoveryName (businesses (fold
       (onDiscovery (sampleWorld \<lparr>chunks = [], ending = EndOfStream\<rparr> (Inr notFoundData))
          ''Austin, TX'' ''Coffee Shops'')
       [\<lparr>name = ''Acme Cafe'', website = ''https://acme.test''\<rparr>,
        \<lparr>name = ''Acme Roasters'', website = ''https://acme.test''\<rparr>] (beginSearch emptyApp)))
     = [''Acme Cafe'']
   \<and> map idB (addNewBusinesses [sampleBusiness, sampleBusiness] [])
     = [''1700000000000-https://acme.test'', ''1700000000000-https://acme.test'']"
  by (simp add: onDiscovery_def beginSearch_def emptyApp_def newBusinessOf_def
      addNewBusinesses_def sampleBusiness_def Let_def)

subsection \<open>Discovery failures\<close>

lemma consume_append:
  "consume f (xs @ ys) b s = (case consume f xs b s of (s', b') \<Rightarrow> consume f ys b' s')"
  by (induction xs arbitrary: b s) (auto split: prod.splits)

lemma onDiscovery_extends:
  "\<exists>ys. businesses (onDiscovery w location bType d st) = businesses st @ ys"
  by (simp add: onDiscovery_def Let_def)

lemma consume_extends:
  "\<exists>ys. businesses (fst (consume (onDiscovery w location bType) cs b st)) = businesses st @ ys"
proof (rule consume_invariant [where P = "\<lambda>t. \<exists>ys. businesses t = businesses st @ ys"])
  fix d and t :: app
  assume "\<exists>ys. businesses t = businesses st @ ys"
  then obtain ys where "businesses t = businesses st @ ys" ..
  moreover obtain zs where "businesses (onDiscovery w location bType d t) = businesses t @ zs"
    using onDiscovery_extends by blast
  ultimately show "\<exists>ys. businesses (onDiscovery w location bType d t) = businesses st @ ys"
    by simp
next
  show "\<exists>ys. businesses st = businesses st @ ys" by simp
qed

text \<open>
  Claim C5 (discovery failure retains partial results). When the response stream fails,
  \<open>findBusinessesStream\<close> rejects with its one error, \<open>handleSearch\<close> sets the error banner
  and stops loading, and the store it leaves is the store as it was when the last chunk
  had been consumed: it extends the store before the search, and the store after any
  number of chunks, by appended candidates only.
\<close>

theorem discovery_failure_keeps_admitted:
  assumes "ending (generateContentStream w (discoveryPrompt location bType numResults)) = StreamFailure"
  shows "snd (findBusinessesStreamFor w location bType numResults f s)
        = Inl (Error ''Failed to find businesses using Gemini API stream.'')
    \<and> errorBanner (handleSearch_geo w location bType numResults st)
        = Some ''An error occurred during discovery. Please check the console and try again.''
    \<and> \<not> isLoading (handleSearch_geo w location bType numResults st)
    \<and> businesses (handleSearch_geo w location bType numResults st)
        = businesses (fst (consume (onDiscovery w location bType)
            (chunks (generateContentStream w (discoveryPrompt location bType numResults))) []
            (beginSearch st)))
    \<and> (\<exists>ys. businesses (handleSearch_geo w location bType numResults st) = businesses st @ ys)
    \<and> (\<forall>k. \<exists>ys. businesses (handleSearch_geo w location bType numResults st)
          = businesses (fst (consume (onDiscovery w location bType)
              (take k (chunks (generateContentStream w (discoveryPrompt location bType numResults))))
              [] (beginSearch st))) @ ys)"
proof -
  let ?rs = "generateContentStream w (discoveryPrompt location bType numResults)"
  let ?f = "onDiscovery w location bType"
  have fb: "findBusinessesStream ?rs g t
      = (fst (consume g (chunks ?rs) [] t),
         Inl (Error ''Failed to find businesses using Gemini API stream.''))"
    for g :: "BusinessDiscovery \<Rightarrow> 'b \<Rightarrow> 'b" and t
    using assms by (simp add: findBusinessesStream_def split: prod.splits)
  have 1: "snd (findBusinessesStreamFor w location bType numResults f s)
        = Inl (Error ''Failed to find businesses using Gemini API stream.'')"
    by (simp add: findBusinessesStreamFor_def fb)
  have hs: "handleSearch_geo w location bType numResults st
      = (fst (consume ?f (chunks ?rs) [] (beginSearch st)))
          \<lparr>errorBanner := Some ''An error occurred during discovery. Please check the console and try again.'',
           researchMessage := [], isLoading := False\<rparr>"
    by (simp add: handleSearch_geo_def findBusinessesStreamFor_def fb)
  have 2: "errorBanner (handleSearch_geo w location bType numResults st)
        = Some ''An error occurred during discovery. Please check the console and try again.''"
    by (simp add: hs)
  have 3: "\<not> isLoading (handleSearch_geo w location bType numResults st)"
    by (simp add: hs)
  have 4: "businesses (handleSearch_geo w location bType numResults st)
        = businesses (fst (consume ?f (chunks ?rs) [] (beginSearch st)))"
    by (simp add: hs)
  have 5: "\<exists>ys. businesses (handleSearch_geo w location bType numResults st) = businesses st @ ys"
    using consume_extends [of w location bType "chunks ?rs" "[]" "beginSearch st"]
    by (simp add: 4 beginSearch_def)
  have 6: "\<forall>k. \<exists>ys. businesses (handleSearch_geo w location bType numResults st)
          = businesses (fst (consume ?f (take k (chunks ?rs)) [] (beginSearch st))) @ ys"
  proof
    fix k
    obtain s' b' where c: "consume ?f (take k (chunks ?rs)) [] (beginSearch st) = (s', b')"
      by (cases "consume ?f (take k (chunks ?rs)) [] (beginSearch st)")
    have "consume ?f (chunks ?rs) [] (beginSearch st)
        = consume ?f (drop k (chunks ?rs)) b' s'"
      using consume_append [of ?f "take k (chunks ?rs)" "drop k (chunks ?rs)" "[]" "beginSearch st"] c
      by simp
    then show "\<exists>ys. businesses (handleSearch_geo w location bType numResults st)
          = businesses (fst (consume ?f (take k (chunks ?rs)) [] (beginSearch st))) @ ys"
      using consume_extends [of w location bType "drop k (chunks ?rs)" b' s'] c by (simp add: 4)
  qed
  show ?thesis by (intro conjI) (rule 1 2 3 4 5 6)+
qed


text \<open>
  A stream that fails after the line of Acme Cafe and half a line of Beta Bar, on a store
  that holds one record: the banner is set, the record is kept and Acme Cafe is appended.
\<close>

theorem discovery_failure_keeps_admitted_witness:
  "errorBanner (handleSearch_geo (sampleWorld failingStream (Inr notFoundData))
       ''Austin, TX'' ''Coffee Shops'' ''5'' (emptyApp\<lparr>businesses := [otherBusiness]\<rparr>))
     = Some ''An error occurred during discovery. Please check the console and try again.''
   \<and> map discoveryName (businesses (handleSearch_geo (sampleWorld failingStream (Inr notFoundData))
       ''Austin, TX'' ''Coffee Shops'' ''5'' (emptyApp\<lparr>businesses := [otherBusiness]\<rparr>)))
     = [''Beta Bar'', ''Acme Cafe'']"
proof -
  let ?w = "sampleWorld failingStream (Inr notFoundData)"
  let ?st = "emptyApp\<lparr>businesses := [otherBusiness]\<rparr>"
  let ?f = "onDiscovery ?w ''Austin, TX'' ''Coffee Shops''"
  have rs: "generateContentStream ?w p = failingStream" for p
    by (simp add: sampleWorld_def)
  have a: "ending (generateContentStream ?w (discoveryPrompt ''Austin, TX'' ''Coffee Shops'' ''5''))
      = StreamFailure"
    by (simp add: sampleWorld_def failingStream_def)
  have d1: "drain ?f ''Acme Cafe | https://acme.test\<newline>Beta'' s
      = (?f \<lparr>name = ''Acme Cafe'', website = ''https://acme.test''\<rparr> s, ''Beta'')" for s
    using drain_line [of "''Acme Cafe | https://acme.test''" ?f "''Beta''" s]
    by (simp add: parse_acme drain_no_newline)
  have d2: "drain ?f ''Beta Bar | https://be'' s = (s, ''Beta Bar | https://be'')" for s
    by (rule drain_no_newline) simp
  have c: "consume ?f (chunks failingStream) [] s
      = (?f \<lparr>name = ''Acme Cafe'', website = ''https://acme.test''\<rparr> s, ''Beta Bar | https://be'')"
    for s
    using d1 [of s] d2 by (simp add: failingStream_def)
  have b: "map discoveryName (businesses
        (?f \<lparr>name = ''Acme Cafe'', website = ''https://acme.test''\<rparr> (beginSearch ?st)))
      = [''Beta Bar'', ''Acme Cafe'']"
    by (simp add: onDiscovery_def beginSearch_def emptyApp_def newBusinessOf_def Let_def
        otherBusiness_def sampleBusiness_def)
  note t = discovery_failure_keeps_admitted [OF a, of _ _ ?st]
  from t [THEN conjunct2, THEN conjunct1]
    t [THEN conjunct2, THEN conjunct2, THEN conjunct2, THEN conjunct1] b
  show ?thesis by (simp add: rs c)
qed

subsection \<open>Missing keys\<close>

lemma no_key_places: "mapsKey w = None \<Longrightarrow>
    makePlacesRequest w endpoint body fieldMask = Inl (Error ''Google Maps API key is not configured'')"
  by (simp add: makePlacesRequest_def)

lemma no_key_details: "mapsKey w = None \<Longrightarrow>
    makePlaceDetailsRequest w placeId fieldMask = Inl (Error ''Google Maps API key is not configured'')"
  by (simp add: makePlaceDetailsRequest_def)

lemma no_key_geocode: "mapsKey w = None \<Longrightarrow> geocodeAddress w addr = Inr None"
  by (simp add: geocodeAddress_def)

lemma no_key_search:
  "mapsKey w = None \<Longrightarrow>
   searchPlacesInArea w bType searchArea maxResults = Inr []
   \<or> (\<exists>e. searchPlacesInArea w bType searchArea maxResults = Inl e)"
  by (auto simp: searchPlacesInArea_def no_key_places Let_def
      split: areaType.splits option.splits)

lemma no_key_search_shaped:
  "mapsKey w = None \<Longrightarrow>
   (type_a searchArea = Circle \<and> circle_a searchArea \<noteq> None)
     \<or> (type_a searchArea = Rectangle \<and> rectangle_a searchArea \<noteq> None) \<Longrightarrow>
   \<exists>e. searchPlacesInArea w bType searchArea maxResults = Inl e"
  by (auto simp: searchPlacesInArea_def no_key_places Let_def
      split: areaType.splits option.splits)

lemma handleSearch_places_outcomes:
  assumes "searchPlacesInArea w bType searchArea
      (if numResults = ''ALL'' then Some 20 else parseInt10 w numResults) = r"
  shows "r = Inr [] \<Longrightarrow>
      businesses (handleSearch_places w location bType numResults searchArea st) = businesses st
      \<and> \<not> isLoading (handleSearch_places w location bType numResults searchArea st)
      \<and> errorBanner (handleSearch_places w location bType numResults searchArea st) = None"
    and "r = Inl e \<Longrightarrow>
      businesses (handleSearch_places w location bType numResults searchArea st) = businesses st
      \<and> \<not> isLoading (handleSearch_places w location bType numResults searchArea st)
      \<and> errorBanner (handleSearch_places w location bType numResults searchArea st)
          = Some ''An error occurred during discovery. Please check the console and try again.''"
  using assms by (simp_all add: handleSearch_places_def Let_def addNewBusinesses_def)

text \<open>
  The maps key. Without it, the two requests of the places service fail with the error
  \<open>Google Maps API key is not configured\<close> and \<open>geocodeAddress\<close> returns \<open>null\<close>; the
  enrichment of the places App resolves with the failure recorded on the candidate, the
  enrichment of the geo App merges the research without coordinates, and the search of the
  places App leaves the store as it was, stops loading and, for a well-formed area, shows
  the error banner.
\<close>

lemma missing_maps_key_degrades:
  assumes "mapsKey w = None"
  shows "makePlacesRequest w endpoint body fieldMask
        = Inl (Error ''Google Maps API key is not configured'')
    \<and> makePlaceDetailsRequest w placeId fieldMask
        = Inl (Error ''Google Maps API key is not configured'')
    \<and> geocodeAddress w addr = Inr None
    \<and> processResearchAndGeocoding_places w business prev
        = Inr (markFailed ''Research failed.'' (idB business) prev)
    \<and> (generateContent w (discoveryName business) (discoveryWebsite business) = Inr rd \<longrightarrow>
         processResearchAndGeocoding_geo w business prev
           = Inr (mergeResearched_geo (idB business) rd None prev))
    \<and> businesses (handleSearch_places w location bType numResults searchArea st) = businesses st
    \<and> \<not> isLoading (handleSearch_places w location bType numResults searchArea st)
    \<and> ((type_a searchArea = Circle \<and> circle_a searchArea \<noteq> None)
          \<or> (type_a searchArea = Rectangle \<and> rectangle_a searchArea \<noteq> None) \<longrightarrow>
        errorBanner (handleSearch_places w location bType numResults searchArea st)
          = Some ''An error occurred during discovery. Please check the console and try again.'')"
proof -
  let ?m = "if numResults = ''ALL'' then Some 20 else parseInt10 w numResults"
  have 1: "makePlacesRequest w endpoint body fieldMask
        = Inl (Error ''Google Maps API key is not configured'')"
    using assms by (rule no_key_places)
  have 2: "makePlaceDetailsRequest w placeId fieldMask
        = Inl (Error ''Google Maps API key is not configured'')"
    using assms by (rule no_key_details)
  have 3: "geocodeAddress w addr = Inr None"
    using assms by (rule no_key_geocode)
  have "\<exists>e'. getPlaceDetails w (idB business) = Inl e'"
    by (simp add: getPlaceDetails_def no_key_details [OF assms])
  then have 4: "processResearchAndGeocoding_places w business prev
        = Inr (markFailed ''Research failed.'' (idB business) prev)"
    using places_fails [of w business] by blast
  have 5: "generateContent w (discoveryName business) (discoveryWebsite business) = Inr rd \<longrightarrow>
         processResearchAndGeocoding_geo w business prev
           = Inr (mergeResearched_geo (idB business) rd None prev)"
    by (simp add: processResearchAndGeocoding_geo_def tryResearch_geo_def researchBusiness_def
        no_key_geocode [OF assms])
  have 67: "businesses (handleSearch_places w location bType numResults searchArea st) = businesses st
    \<and> \<not> isLoading (handleSearch_places w location bType numResults searchArea st)"
    using no_key_search [OF assms, of bType searchArea ?m]
      handleSearch_places_outcomes [OF refl, of w bType searchArea numResults]
    by metis
  have 8: "(type_a searchArea = Circle \<and> circle_a searchArea \<noteq> None)
          \<or> (type_a searchArea = Rectangle \<and> rectangle_a searchArea \<noteq> None) \<longrightarrow>
        errorBanner (handleSearch_places w location bType numResults searchArea st)
          = Some ''An error occurred during discovery. Please check the console and try again.''"
    using no_key_search_shaped [OF assms, of searchArea bType ?m]
      handleSearch_places_outcomes(2) [OF refl, of w bType searchArea numResults]
    by metis
  from 67 have 6: "businesses (handleSearch_places w location bType numResults searchArea st) = businesses st"
    and 7: "\<not> isLoading (handleSearch_places w location bType numResults searchArea st)"
    by simp_all
  show ?thesis by (intro conjI) (rule 1 2 3 4 5 6 7 8)+
qed

lemma missing_maps_key_example:
  "geocodeAddress (sampleWorld failingStream (Inr notFoundData)) ''1 Main St'' = Inr None
   \<and> errorBanner (handleSearch_places (sampleWorld failingStream (Inr notFoundData))
        ''Austin, TX'' ''coffee shop'' ''5'' sampleCircle (emptyApp\<lparr>businesses := [sampleBusiness]\<rparr>))
      = Some ''An error occurred during discovery. Please check the console and try again.''
   \<and> businesses (handleSearch_places (sampleWorld failingStream (Inr notFoundData))
        ''Austin, TX'' ''coffee shop'' ''5'' sampleCircle (emptyApp\<lparr>businesses := [sampleBusiness]\<rparr>))
      = [sampleBusiness]
   \<and> processResearchAndGeocoding_places (sampleWorld failingStream (Inr notFoundData))
        sampleBusiness [sampleBusiness]
      = Inr [sampleBusiness\<lparr>description := ''Research failed.''\<rparr>]"
proof -
  let ?w = "sampleWorld failingStream (Inr notFoundData)"
  have a: "mapsKey ?w = None" by (simp add: sampleWorld_def)
  have c: "(type_a sampleCircle = Circle \<and> circle_a sampleCircle \<noteq> None)
      \<or> (type_a sampleCircle = Rectangle \<and> rectangle_a sampleCircle \<noteq> None)"
    by (simp add: sampleCircle_def)
  have m: "markFailed ''Research failed.'' (idB sampleBusiness) [sampleBusiness]
      = [sampleBusiness\<lparr>description := ''Research failed.''\<rparr>]"
    by (simp add: markFailed_def sampleBusiness_def)
  have e: "businesses (emptyApp\<lparr>businesses := [sampleBusiness]\<rparr>) = [sampleBusiness]" by simp
  note t = missing_maps_key_degrades [OF a, where searchArea = sampleCircle
      and st = "emptyApp\<lparr>businesses := [sampleBusiness]\<rparr>" and business = sampleBusiness
      and prev = "[sampleBusiness]" and location = "''Austin, TX''" and bType = "''coffee shop''"
      and numResults = "''5''" and addr = "''1 Main St''"]
  note t3 = t [THEN conjunct2, THEN conjunct2, THEN conjunct1]
  note t4 = t [THEN conjunct2, THEN conjunct2, THEN conjunct2, THEN conjunct1]
  note t6 = t [THEN conjunct2, THEN conjunct2, THEN conjunct2, THEN conjunct2, THEN conjunct2,
      THEN conjunct1]
  note t8 = t [THEN conjunct2, THEN conjunct2, THEN conjunct2, THEN conjunct2, THEN conjunct2,
      THEN conjunct2, THEN conjunct2, rule_format, OF c]
  from t3 t4 t6 t8 m e show ?thesis by simp
qed



text \<open>
  The generative key. What the constructor of the client throws is caught by nothing:
  the module of the research service does not load and no App comes to exist. With the
  constructor returning, the App mounts, and an absent maps key is then a message in its
  state.
\<close>

lemma constructor_failure_uncaught:
  "newGoogleGenAI w (geminiKey w) = Inl e \<Longrightarrow> geminiServiceModule w = Inl e \<and> loadApp w = Inl e"
  by (simp add: geminiServiceModule_def loadApp_def)

lemma maps_key_absent_loads:
  "newGoogleGenAI w (geminiKey w) = Inr () \<Longrightarrow> mapsKey w = None \<Longrightarrow>
   loadApp w = Inr (initialApp w)
   \<and> errorBanner (initialApp w)
       = Some ''Google Maps API key is not configured. The map will not be displayed.''"
  by (simp add: geminiServiceModule_def loadApp_def initialApp_def)

text \<open>
  Claim C9 (missing-key degraded mode) fails for the generative key. In the world where
  \<open>process.env.API_KEY\<close> is undefined and the client library is the one a browser runs,
  the top level of the research service throws and the App does not load: there is no
  degraded mode. In the same world with the generative key present and the maps key
  still absent, the App loads with the message about the map in its state, which is what
  the claim asks of both keys.
\<close>

theorem missing_generative_key_fails_load:
  "geminiKey noGenerativeKeyWorld = None
   \<and> geminiServiceModule noGenerativeKeyWorld
       = Inl (Error ''An API Key must be set when running in a browser'')
   \<and> loadApp noGenerativeKeyWorld
       = Inl (Error ''An API Key must be set when running in a browser'')
   \<and> mapsKey (sampleWorld failingStream (Inr notFoundData)) = None
   \<and> loadApp (sampleWorld failingStream (Inr notFoundData))
       = Inr (emptyApp\<lparr>errorBanner :=
           Some ''Google Maps API key is not configured. The map will not be displayed.''\<rparr>)"
  by (simp add: noGenerativeKeyWorld_def sampleWorld_def geminiServiceModule_def loadApp_def
      browserGoogleGenAI_def initialApp_def emptyApp_def)

end
